theory Spec2Isabelle
  imports Complex_Main "HOL-Library.Sublist" "HOL-Library.Word"
begin

section \<open>The ComfyUI client of fluxstudio (src/backend/comfyui\_client.py)\<close>

text \<open>
  The development embeds the class \<^verbatim>\<open>ComfyUIClient\<close>: the three workflow builders,
  the cached node catalogue, the submission of a workflow, and \<^verbatim>\<open>generate_image\<close>
  with its fallback cascade, its progress loop over the websocket and its retrieval of
  the result. Everything the engine answers is a parameter (the record \<open>engine\<close>);
  everything the client changes is a field of the record \<open>state\<close>.
\<close>

subsection \<open>JSON values and Python exceptions\<close>

text \<open>
  Workflows, engine answers and websocket messages are JSON documents. A Python dict
  is an association list in insertion order (looked up with \<open>map_of\<close>). A Python
  float is carried as the rational it denotes; the code never computes with one.
\<close>

datatype json =
    JNull
  | JBool bool
  | JInt int
  | JFloat rat
  | JStr string
  | JList "json list"
  | JObj "(string \<times> json) list"

type_synonym jobj = "(string \<times> json) list"

type_synonym bytes = "8 word list"

text \<open>
  Every failure of the source is an exception. The four explicit \<^verbatim>\<open>raise Exception(...)\<close>
  of the file are told apart by their message; the others are the built-in errors of the
  Python operations the code applies to engine data, and \<open>TransportError\<close> stands for
  whatever aiohttp or the JSON decoder raises (with its message).
\<close>

datatype exn =
    ComfyUIError json      \<comment> \<open>\<^verbatim>\<open>Exception(f"ComfyUI error: {result['error']}")\<close>\<close>
  | ExecutionError json    \<comment> \<open>\<^verbatim>\<open>Exception(f"Execution error: {error_msg}")\<close>\<close>
  | NoHistoryFound         \<comment> \<open>\<^verbatim>\<open>Exception("Generation failed - no history found")\<close>\<close>
  | NoImageFound           \<comment> \<open>\<^verbatim>\<open>Exception("No image found in output")\<close>\<close>
  | KeyError json
  | IndexError
  | TypeError
  | AttributeError
  | TransportError string

text \<open>\<^verbatim>\<open>obj[key]\<close> with a string key: only a dict has string keys.\<close>

definition subscript :: "json \<Rightarrow> string \<Rightarrow> exn + json" where
  "subscript obj key =
     (case obj of
        JObj fields \<Rightarrow>
          (case map_of fields key of
             Some v \<Rightarrow> Inr v
           | None \<Rightarrow> Inl (KeyError (JStr key)))
      | _ \<Rightarrow> Inl TypeError)"

text \<open>\<^verbatim>\<open>obj[0]\<close>: the first element of a list or string; a dict has no key 0.\<close>

definition subscript0 :: "json \<Rightarrow> exn + json" where
  "subscript0 obj =
     (case obj of
        JList xs \<Rightarrow> (case xs of [] \<Rightarrow> Inl IndexError | x # _ \<Rightarrow> Inr x)
      | JStr cs \<Rightarrow> (case cs of [] \<Rightarrow> Inl IndexError | c # _ \<Rightarrow> Inr (JStr [c]))
      | JObj fields \<Rightarrow> Inl (KeyError (JInt 0))
      | _ \<Rightarrow> Inl TypeError)"

text \<open>\<^verbatim>\<open>obj.get(key, default)\<close>: a method of dicts only.\<close>

definition dict_get :: "json \<Rightarrow> string \<Rightarrow> json \<Rightarrow> exn + json" where
  "dict_get obj key dflt =
     (case obj of
        JObj fields \<Rightarrow>
          (case map_of fields key of
             Some v \<Rightarrow> Inr v
           | None \<Rightarrow> Inr dflt)
      | _ \<Rightarrow> Inl AttributeError)"

text \<open>
  \<^verbatim>\<open>key in obj\<close> for a string key: key membership in a dict, element membership in a
  list, substring test in a string, a TypeError on anything else.
\<close>

definition py_in :: "string \<Rightarrow> json \<Rightarrow> exn + bool" where
  "py_in key obj =
     (case obj of
        JObj fields \<Rightarrow> Inr (key \<in> set (map fst fields))
      | JList xs \<Rightarrow> Inr (JStr key \<in> set xs)
      | JStr cs \<Rightarrow> Inr (sublist key cs)
      | _ \<Rightarrow> Inl TypeError)"

text \<open>
  Python's \<^verbatim>\<open>==\<close> on decoded JSON: booleans and numbers compare by value (\<^verbatim>\<open>True == 1 == 1.0\<close>),
  strings and null with their like only, lists element by element, dicts key by key.
\<close>

fun py_num :: "json \<Rightarrow> rat option" where
  "py_num (JBool b) = Some (if b then 1 else 0)"
| "py_num (JInt i) = Some (of_int i)"
| "py_num (JFloat q) = Some q"
| "py_num v = None"

fun py_eq :: "json \<Rightarrow> json \<Rightarrow> bool"
  and py_eq_list :: "json list \<Rightarrow> json list \<Rightarrow> bool"
  and py_eq_items :: "jobj \<Rightarrow> jobj \<Rightarrow> bool" where
  "py_eq JNull y = (y = JNull)"
| "py_eq (JStr a) y = (y = JStr a)"
| "py_eq (JList xs) y = (case y of JList ys \<Rightarrow> py_eq_list xs ys | _ \<Rightarrow> False)"
| "py_eq (JObj a) y =
     (case y of JObj b \<Rightarrow> length a = length b \<and> py_eq_items a b | _ \<Rightarrow> False)"
| "py_eq (JBool p) y = (py_num y = Some (if p then 1 else 0))"
| "py_eq (JInt i) y = (py_num y = Some (of_int i))"
| "py_eq (JFloat q) y = (py_num y = Some q)"
| "py_eq_list [] ys = (ys = [])"
| "py_eq_list (x # xs) ys =
     (case ys of [] \<Rightarrow> False | y # ys' \<Rightarrow> py_eq x y \<and> py_eq_list xs ys')"
| "py_eq_items [] b = True"
| "py_eq_items (kv # a) b =
     ((case map_of b (fst kv) of None \<Rightarrow> False | Some v' \<Rightarrow> py_eq (snd kv) v')
      \<and> py_eq_items a b)"

text \<open>
  \<^verbatim>\<open>x in obj\<close> for any JSON values. In a dict (all keys are strings) a list or dict is
  unhashable and any other non-string is not a key; in a list the elements are compared
  with \<^verbatim>\<open>==\<close>; in a string only a string can be looked for; null, booleans and numbers
  are not containers.
\<close>

definition py_contains :: "json \<Rightarrow> json \<Rightarrow> exn + bool" where
  "py_contains x obj =
     (case obj of
        JObj fields \<Rightarrow>
          (case x of
             JStr key \<Rightarrow> Inr (key \<in> set (map fst fields))
           | JList _ \<Rightarrow> Inl TypeError
           | JObj _ \<Rightarrow> Inl TypeError
           | _ \<Rightarrow> Inr False)
      | JList xs \<Rightarrow> Inr (list_ex (py_eq x) xs)
      | JStr cs \<Rightarrow> (case x of JStr key \<Rightarrow> Inr (sublist key cs) | _ \<Rightarrow> Inl TypeError)
      | _ \<Rightarrow> Inl TypeError)"

text \<open>\<^verbatim>\<open>xs[i]\<close> on a sequence: a negative index counts from the end.\<close>

definition py_index :: "'a list \<Rightarrow> int \<Rightarrow> exn + 'a" where
  "py_index xs i =
     (if 0 \<le> i \<and> i < int (length xs) then Inr (xs ! nat i)
      else if i < 0 \<and> - int (length xs) \<le> i then Inr (xs ! nat (int (length xs) + i))
      else Inl IndexError)"

text \<open>
  \<^verbatim>\<open>obj[x]\<close> for any JSON values: a key of a dict, an integer (or boolean) index of a list
  or string; null, booleans and numbers cannot be subscripted.
\<close>

definition py_getitem :: "json \<Rightarrow> json \<Rightarrow> exn + json" where
  "py_getitem obj x =
     (case obj of
        JObj fields \<Rightarrow>
          (case x of
             JStr key \<Rightarrow> (case map_of fields key of Some v \<Rightarrow> Inr v | None \<Rightarrow> Inl (KeyError x))
           | JList _ \<Rightarrow> Inl TypeError
           | JObj _ \<Rightarrow> Inl TypeError
           | _ \<Rightarrow> Inl (KeyError x))
      | JList xs \<Rightarrow>
          (case x of
             JInt i \<Rightarrow> py_index xs i
           | JBool b \<Rightarrow> py_index xs (if b then 1 else 0)
           | _ \<Rightarrow> Inl TypeError)
      | JStr cs \<Rightarrow>
          (case x of
             JInt i \<Rightarrow> (case py_index cs i of Inl e \<Rightarrow> Inl e | Inr c \<Rightarrow> Inr (JStr [c]))
           | JBool b \<Rightarrow>
               (case py_index cs (if b then 1 else 0) of Inl e \<Rightarrow> Inl e | Inr c \<Rightarrow> Inr (JStr [c]))
           | _ \<Rightarrow> Inl TypeError)
      | _ \<Rightarrow> Inl TypeError)"

subsection \<open>The random module\<close>

text \<open>
  The state of Python's \<^verbatim>\<open>random\<close> module is the stream of its future raw draws;
  \<^verbatim>\<open>random.randint(lo, hi)\<close> consumes one and lands in \<open>lo..hi\<close>.
\<close>

type_synonym rng = "nat \<Rightarrow> nat"

definition randint :: "int \<Rightarrow> int \<Rightarrow> rng \<Rightarrow> int \<times> rng" where
  "randint lo hi r = (lo + int (r 0) mod (hi - lo + 1), (\<lambda>n. r (Suc n)))"

text \<open>\<^verbatim>\<open>if seed is None: seed = random.randint(0, 2**31 - 1)\<close>\<close>

definition default_seed :: "int option \<Rightarrow> rng \<Rightarrow> int \<times> rng" where
  "default_seed seed r =
     (case seed of
        None \<Rightarrow> randint 0 (2 ^ 31 - 1) r
      | Some v \<Rightarrow> (v, r))"

subsection \<open>The three workflow builders\<close>

definition standard_graph :: "string \<Rightarrow> int \<Rightarrow> int \<Rightarrow> int \<Rightarrow> rat \<Rightarrow> int \<Rightarrow> jobj" where
  "standard_graph prompt width height steps guidance seed =
    [(''load_unet'', JObj
       [(''class_type'', JStr ''UNETLoader''),
        (''inputs'', JObj
          [(''unet_name'', JStr ''flux2_dev_fp8mixed.safetensors''),
           (''weight_dtype'', JStr ''fp8_e4m3fn'')])]),
     (''load_clip'', JObj
       [(''class_type'', JStr ''CLIPLoader''),
        (''inputs'', JObj
          [(''clip_name'', JStr ''mistral_3_small_flux2_fp8.safetensors''),
           (''type'', JStr ''flux2'')])]),
     (''load_vae'', JObj
       [(''class_type'', JStr ''VAELoader''),
        (''inputs'', JObj
          [(''vae_name'', JStr ''flux2-vae.safetensors'')])]),
     (''clip_encode'', JObj
       [(''class_type'', JStr ''CLIPTextEncode''),
        (''inputs'', JObj
          [(''text'', JStr prompt),
           (''clip'', JList [JStr ''load_clip'', JInt 0])])]),
     (''clip_encode_negative'', JObj
       [(''class_type'', JStr ''CLIPTextEncode''),
        (''inputs'', JObj
          [(''text'', JStr ''''),
           (''clip'', JList [JStr ''load_clip'', JInt 0])])]),
     (''empty_latent'', JObj
       [(''class_type'', JStr ''EmptySD3LatentImage''),
        (''inputs'', JObj
          [(''width'', JInt width),
           (''height'', JInt height),
           (''batch_size'', JInt 1)])]),
     (''model_sampling'', JObj
       [(''class_type'', JStr ''ModelSamplingFlux''),
        (''inputs'', JObj
          [(''model'', JList [JStr ''load_unet'', JInt 0]),
           (''max_shift'', JFloat (115 / 100)),
           (''base_shift'', JFloat (5 / 10)),
           (''width'', JInt width),
           (''height'', JInt height)])]),
     (''sampler'', JObj
       [(''class_type'', JStr ''KSampler''),
        (''inputs'', JObj
          [(''model'', JList [JStr ''model_sampling'', JInt 0]),
           (''positive'', JList [JStr ''clip_encode'', JInt 0]),
           (''negative'', JList [JStr ''clip_encode_negative'', JInt 0]),
           (''latent_image'', JList [JStr ''empty_latent'', JInt 0]),
           (''seed'', JInt seed),
           (''steps'', JInt steps),
           (''cfg'', JFloat guidance),
           (''sampler_name'', JStr ''euler''),
           (''scheduler'', JStr ''simple''),
           (''denoise'', JFloat 1)])]),
     (''vae_decode'', JObj
       [(''class_type'', JStr ''VAEDecode''),
        (''inputs'', JObj
          [(''samples'', JList [JStr ''sampler'', JInt 0]),
           (''vae'', JList [JStr ''load_vae'', JInt 0])])]),
     (''save_image'', JObj
       [(''class_type'', JStr ''SaveImage''),
        (''inputs'', JObj
          [(''images'', JList [JStr ''vae_decode'', JInt 0]),
           (''filename_prefix'', JStr ''flux_gen'')])])]"

definition create_flux2_workflow ::
  "string \<Rightarrow> int \<Rightarrow> int \<Rightarrow> int \<Rightarrow> rat \<Rightarrow> int option \<Rightarrow> rng \<Rightarrow> jobj \<times> rng" where
  "create_flux2_workflow prompt width height steps guidance seed r =
     (case default_seed seed r of
        (seed', r') \<Rightarrow> (standard_graph prompt width height steps guidance seed', r'))"

definition gguf_graph :: "string \<Rightarrow> int \<Rightarrow> int \<Rightarrow> int \<Rightarrow> rat \<Rightarrow> int \<Rightarrow> jobj" where
  "gguf_graph prompt width height steps guidance seed =
    [(''load_unet_gguf'', JObj
       [(''class_type'', JStr ''UnetLoaderGGUF''),
        (''inputs'', JObj
          [(''unet_name'', JStr ''flux2-dev-Q5_K_M.gguf'')])]),
     (''load_clip'', JObj
       [(''class_type'', JStr ''CLIPLoader''),
        (''inputs'', JObj
          [(''clip_name'', JStr ''mistral_3_small_flux2_bf16.safetensors''),
           (''type'', JStr ''flux2'')])]),
     (''load_vae'', JObj
       [(''class_type'', JStr ''VAELoader''),
        (''inputs'', JObj
          [(''vae_name'', JStr ''flux2-vae.safetensors'')])]),
     (''clip_encode'', JObj
       [(''class_type'', JStr ''CLIPTextEncode''),
        (''inputs'', JObj
          [(''text'', JStr prompt),
           (''clip'', JList [JStr ''load_clip'', JInt 0])])]),
     (''clip_encode_negative'', JObj
       [(''class_type'', JStr ''CLIPTextEncode''),
        (''inputs'', JObj
          [(''text'', JStr ''''),
           (''clip'', JList [JStr ''load_clip'', JInt 0])])]),
     (''empty_latent'', JObj
       [(''class_type'', JStr ''EmptySD3LatentImage''),
        (''inputs'', JObj
          [(''width'', JInt width),
           (''height'', JInt height),
           (''batch_size'', JInt 1)])]),
     (''model_sampling'', JObj
       [(''class_type'', JStr ''ModelSamplingFlux''),
        (''inputs'', JObj
          [(''model'', JList [JStr ''load_unet_gguf'', JInt 0]),
           (''max_shift'', JFloat (115 / 100)),
           (''base_shift'', JFloat (5 / 10)),
           (''width'', JInt width),
           (''height'', JInt height)])]),
     (''sampler'', JObj
       [(''class_type'', JStr ''KSampler''),
        (''inputs'', JObj
          [(''model'', JList [JStr ''model_sampling'', JInt 0]),
           (''positive'', JList [JStr ''clip_encode'', JInt 0]),
           (''negative'', JList [JStr ''clip_encode_negative'', JInt 0]),
           (''latent_image'', JList [JStr ''empty_latent'', JInt 0]),
           (''seed'', JInt seed),
           (''steps'', JInt steps),
           (''cfg'', JFloat guidance),
           (''sampler_name'', JStr ''euler''),
           (''scheduler'', JStr ''simple''),
           (''denoise'', JFloat 1)])]),
     (''vae_decode'', JObj
       [(''class_type'', JStr ''VAEDecode''),
        (''inputs'', JObj
          [(''samples'', JList [JStr ''sampler'', JInt 0]),
           (''vae'', JList [JStr ''load_vae'', JInt 0])])]),
     (''save_image'', JObj
       [(''class_type'', JStr ''SaveImage''),
        (''inputs'', JObj
          [(''images'', JList [JStr ''vae_decode'', JInt 0]),
           (''filename_prefix'', JStr ''flux_gen'')])])]"

definition create_flux2_workflow_gguf ::
  "string \<Rightarrow> int \<Rightarrow> int \<Rightarrow> int \<Rightarrow> rat \<Rightarrow> int option \<Rightarrow> rng \<Rightarrow> jobj \<times> rng" where
  "create_flux2_workflow_gguf prompt width height steps guidance seed r =
     (case default_seed seed r of
        (seed', r') \<Rightarrow> (gguf_graph prompt width height steps guidance seed', r'))"

definition simple_graph :: "string \<Rightarrow> int \<Rightarrow> int \<Rightarrow> int \<Rightarrow> rat \<Rightarrow> int \<Rightarrow> jobj" where
  "simple_graph prompt width height steps guidance seed =
    [(''load_unet'', JObj
       [(''class_type'', JStr ''UNETLoader''),
        (''inputs'', JObj
          [(''unet_name'', JStr ''flux2_dev_fp8mixed.safetensors''),
           (''weight_dtype'', JStr ''fp8_e4m3fn'')])]),
     (''load_clip'', JObj
       [(''class_type'', JStr ''CLIPLoader''),
        (''inputs'', JObj
          [(''clip_name'', JStr ''mistral_3_small_flux2_fp8.safetensors''),
           (''type'', JStr ''flux2'')])]),
     (''load_vae'', JObj
       [(''class_type'', JStr ''VAELoader''),
        (''inputs'', JObj
          [(''vae_name'', JStr ''flux2-vae.safetensors'')])]),
     (''clip_encode'', JObj
       [(''class_type'', JStr ''CLIPTextEncode''),
        (''inputs'', JObj
          [(''text'', JStr prompt),
           (''clip'', JList [JStr ''load_clip'', JInt 0])])]),
     (''clip_encode_negative'', JObj
       [(''class_type'', JStr ''CLIPTextEncode''),
        (''inputs'', JObj
          [(''text'', JStr ''''),
           (''clip'', JList [JStr ''load_clip'', JInt 0])])]),
     (''empty_latent'', JObj
       [(''class_type'', JStr ''EmptySD3LatentImage''),
        (''inputs'', JObj
          [(''width'', JInt width),
           (''height'', JInt height),
           (''batch_size'', JInt 1)])]),
     (''sampler'', JObj
       [(''class_type'', JStr ''KSampler''),
        (''inputs'', JObj
          [(''model'', JList [JStr ''load_unet'', JInt 0]),
           (''positive'', JList [JStr ''clip_encode'', JInt 0]),
           (''negative'', JList [JStr ''clip_encode_negative'', JInt 0]),
           (''latent_image'', JList [JStr ''empty_latent'', JInt 0]),
           (''seed'', JInt seed),
           (''steps'', JInt steps),
           (''cfg'', JFloat guidance),
           (''sampler_name'', JStr ''euler''),
           (''scheduler'', JStr ''simple''),
           (''denoise'', JFloat 1)])]),
     (''vae_decode'', JObj
       [(''class_type'', JStr ''VAEDecode''),
        (''inputs'', JObj
          [(''samples'', JList [JStr ''sampler'', JInt 0]),
           (''vae'', JList [JStr ''load_vae'', JInt 0])])]),
     (''save_image'', JObj
       [(''class_type'', JStr ''SaveImage''),
        (''inputs'', JObj
          [(''images'', JList [JStr ''vae_decode'', JInt 0]),
           (''filename_prefix'', JStr ''flux_gen'')])])]"

definition create_flux2_workflow_simple ::
  "string \<Rightarrow> int \<Rightarrow> int \<Rightarrow> int \<Rightarrow> rat \<Rightarrow> int option \<Rightarrow> rng \<Rightarrow> jobj \<times> rng" where
  "create_flux2_workflow_simple prompt width height steps guidance seed r =
     (case default_seed seed r of
        (seed', r') \<Rightarrow> (simple_graph prompt width height steps guidance seed', r'))"

subsection \<open>Reading a workflow graph\<close>

text \<open>
  An input whose value is a two-element list of a node name and an output index is a
  reference to that node; every other input is a literal.
\<close>

definition as_ref :: "json \<Rightarrow> string option" where
  "as_ref v = (case v of JList [JStr n, JInt i] \<Rightarrow> Some n | _ \<Rightarrow> None)"

definition node_inputs :: "json \<Rightarrow> jobj" where
  "node_inputs node =
     (case node of
        JObj fields \<Rightarrow> (case map_of fields ''inputs'' of Some (JObj ins) \<Rightarrow> ins | _ \<Rightarrow> [])
      | _ \<Rightarrow> [])"

definition node_refs :: "json \<Rightarrow> string list" where
  "node_refs node = List.map_filter (\<lambda>kv. as_ref (snd kv)) (node_inputs node)"

definition class_type :: "json \<Rightarrow> json option" where
  "class_type node = (case node of JObj fields \<Rightarrow> map_of fields ''class_type'' | _ \<Rightarrow> None)"

definition refs_resolve :: "jobj \<Rightarrow> bool" where
  "refs_resolve graph =
     list_all (\<lambda>kv. list_all (\<lambda>n. n \<in> set (map fst graph)) (node_refs (snd kv))) graph"

definition consumers :: "jobj \<Rightarrow> string \<Rightarrow> string list" where
  "consumers graph n = map fst (filter (\<lambda>kv. n \<in> set (node_refs (snd kv))) graph)"

definition terminal_nodes :: "jobj \<Rightarrow> string list" where
  "terminal_nodes graph = filter (\<lambda>n. consumers graph n = []) (map fst graph)"

definition nodes_of_class :: "jobj \<Rightarrow> string \<Rightarrow> string list" where
  "nodes_of_class graph c = map fst (filter (\<lambda>kv. class_type (snd kv) = Some (JStr c)) graph)"

subsection \<open>The engine and the client's state\<close>

text \<open>
  A websocket message is a text frame, given by what \<^verbatim>\<open>json.loads\<close> makes of its
  payload (the message of a decoding error, or a document), or a frame of another type.
\<close>

datatype ws_msg = WSText "string + json" | WSOther

text \<open>
  The engine is what the HTTP and websocket endpoints answer; \<open>Inl\<close> is the message
  of the exception the request raises, a \<open>TransportError\<close> in the client. The bodies of
  \<^verbatim>\<open>/object_info\<close>, \<^verbatim>\<open>/prompt\<close> and \<^verbatim>\<open>/history\<close> are whatever JSON document
  \<^verbatim>\<open>resp.json()\<close> decodes: the client checks none of them. The websocket gives the frames it
  delivers and whether the engine closes the connection after them; if it does not,
  \<^verbatim>\<open>async for msg in ws\<close> waits for ever once they are consumed.
\<close>

record engine =
  object_info :: "nat \<Rightarrow> string + json"
  prompt_resp :: "nat \<Rightarrow> jobj \<Rightarrow> string + json"
  ws_connect :: "string + ws_msg list \<times> bool"
  history :: "json \<Rightarrow> string + json"
  view :: "json \<Rightarrow> json \<Rightarrow> json \<Rightarrow> string + bytes"

text \<open>
  \<open>object_info eng n\<close> answers the client's n-th \<^verbatim>\<open>GET /object_info\<close>, \<open>prompt_resp eng n w\<close>
  its n-th \<^verbatim>\<open>POST /prompt\<close>, which carries the workflow \<open>w\<close> (both counted from 0);
  \<open>history eng id\<close> answers \<^verbatim>\<open>GET /history/{id}\<close> and \<open>view eng f d t\<close> answers
  \<^verbatim>\<open>GET /view\<close> of a filename, a subfolder and a type.

  The state holds the attribute \<^verbatim>\<open>self._available_nodes\<close> (\<open>JNull\<close> is Python's
  \<^verbatim>\<open>None\<close>, the value \<^verbatim>\<open>__init__\<close> gives it), the state of \<^verbatim>\<open>random\<close>, and
  the trace of what the client did: the catalogue requests it issued, the workflows it
  submitted, whether its websocket is open, and the calls of the progress callback.
\<close>

record state =
  available_nodes :: json
  fetches :: nat
  rng :: rng
  submitted :: "jobj list"
  ws_open :: bool
  progress_calls :: "(json \<times> json) list"

datatype 'a outcome = Returns 'a | Raises exn | Blocks

subsection \<open>The node catalogue\<close>

definition get_available_nodes :: "engine \<Rightarrow> state \<Rightarrow> json \<times> state" where
  "get_available_nodes eng s =
     (if available_nodes s \<noteq> JNull then (available_nodes s, s)
      else
        (case object_info eng (fetches s) of
           Inr body \<Rightarrow> (body, s\<lparr>available_nodes := body, fetches := Suc (fetches s)\<rparr>)
         | Inl e \<Rightarrow> (JObj [], s\<lparr>fetches := Suc (fetches s)\<rparr>)))"

definition has_node :: "engine \<Rightarrow> string \<Rightarrow> state \<Rightarrow> (exn + bool) \<times> state" where
  "has_node eng node_type s =
     (case get_available_nodes eng s of
        (nodes, s') \<Rightarrow> (py_in node_type nodes, s'))"

subsection \<open>Submission, history, download\<close>

text \<open>
  Lines 358--361 of \<^verbatim>\<open>queue_prompt\<close>: what the method makes of the answer to its POST.
  The payload also carries \<^verbatim>\<open>client_id\<close>, fixed when the client is created; \<open>submitted\<close>
  records the workflow of every POST, answered or not.
\<close>

definition prompt_result :: "string + json \<Rightarrow> exn + json" where
  "prompt_result answer =
     (case answer of
        Inl msg \<Rightarrow> Inl (TransportError msg)
      | Inr result \<Rightarrow>
          (case py_in ''error'' result of
             Inl e \<Rightarrow> Inl e
           | Inr has_error \<Rightarrow>
               if has_error then
                 (case subscript result ''error'' of
                    Inl e \<Rightarrow> Inl e
                  | Inr err \<Rightarrow> Inl (ComfyUIError err))
               else subscript result ''prompt_id''))"

definition queue_prompt :: "engine \<Rightarrow> jobj \<Rightarrow> state \<Rightarrow> (exn + json) \<times> state" where
  "queue_prompt eng workflow s =
     (prompt_result (prompt_resp eng (length (submitted s)) workflow),
      s\<lparr>submitted := submitted s @ [workflow]\<rparr>)"

definition get_history :: "engine \<Rightarrow> json \<Rightarrow> exn + json" where
  "get_history eng prompt_id =
     (case history eng prompt_id of
        Inl msg \<Rightarrow> Inl (TransportError msg)
      | Inr body \<Rightarrow> Inr body)"

definition get_image :: "engine \<Rightarrow> json \<Rightarrow> json \<Rightarrow> json \<Rightarrow> exn + bytes" where
  "get_image eng filename subfolder folder_type =
     (case view eng filename subfolder folder_type of
        Inl msg \<Rightarrow> Inl (TransportError msg)
      | Inr body \<Rightarrow> Inr body)"

subsection \<open>generate\_image, block by block\<close>

text \<open>Lines 405--438: the workflow built first, and its \<^verbatim>\<open>workflow_type\<close>.\<close>

definition initial_workflow ::
  "string \<Rightarrow> int \<Rightarrow> int \<Rightarrow> int \<Rightarrow> rat \<Rightarrow> int \<Rightarrow> bool \<Rightarrow> bool \<Rightarrow> state
     \<Rightarrow> (jobj \<times> string) \<times> state" where
  "initial_workflow prompt width height steps guidance seed has_gguf_loader has_flux_sampling s =
     (if has_gguf_loader then
        (case create_flux2_workflow_gguf prompt width height steps guidance (Some seed) (rng s) of
           (workflow, r) \<Rightarrow> ((workflow, ''gguf''), s\<lparr>rng := r\<rparr>))
      else if has_flux_sampling then
        (case create_flux2_workflow prompt width height steps guidance (Some seed) (rng s) of
           (workflow, r) \<Rightarrow> ((workflow, ''standard''), s\<lparr>rng := r\<rparr>))
      else
        (case create_flux2_workflow_simple prompt width height steps guidance (Some seed) (rng s) of
           (workflow, r) \<Rightarrow> ((workflow, ''simple''), s\<lparr>rng := r\<rparr>)))"

text \<open>
  Lines 440--476: the submission and its \<^verbatim>\<open>except\<close> handlers. An exception raised inside a
  handler leaves the \<^verbatim>\<open>try\<close> statement: it is the exception of the call.
\<close>

definition submit_with_fallback ::
  "engine \<Rightarrow> string \<Rightarrow> int \<Rightarrow> int \<Rightarrow> int \<Rightarrow> rat \<Rightarrow> int \<Rightarrow> bool \<Rightarrow> jobj \<Rightarrow> string \<Rightarrow> state
     \<Rightarrow> (exn + json) \<times> state" where
  "submit_with_fallback eng prompt width height steps guidance seed has_flux_sampling
       workflow workflow_type s =
     (case queue_prompt eng workflow s of
        (Inr prompt_id, s1) \<Rightarrow> (Inr prompt_id, s1)
      | (Inl e, s1) \<Rightarrow>
          if workflow_type = ''gguf'' \<and> has_flux_sampling then
            (case create_flux2_workflow prompt width height steps guidance (Some seed) (rng s1) of
               (workflow2, r2) \<Rightarrow>
                 (case queue_prompt eng workflow2 (s1\<lparr>rng := r2\<rparr>) of
                    (Inr prompt_id, s2) \<Rightarrow> (Inr prompt_id, s2)
                  | (Inl e2, s2) \<Rightarrow>
                      (case create_flux2_workflow_simple prompt width height steps guidance
                              (Some seed) (rng s2) of
                         (workflow3, r3) \<Rightarrow> queue_prompt eng workflow3 (s2\<lparr>rng := r3\<rparr>))))
          else if workflow_type \<in> set [''gguf'', ''standard''] then
            (case create_flux2_workflow_simple prompt width height steps guidance (Some seed) (rng s1) of
               (workflow2, r2) \<Rightarrow> queue_prompt eng workflow2 (s1\<lparr>rng := r2\<rparr>))
          else (Inl e, s1))"

text \<open>
  Lines 481--499: the body of the receive loop on one frame. The callback is given by
  whether the caller passed one; its calls are recorded in \<open>progress_calls\<close>, and it is
  taken to return normally.
\<close>

datatype loop_ctl = Continue | Break

definition on_message :: "bool \<Rightarrow> ws_msg \<Rightarrow> state \<Rightarrow> (exn + loop_ctl) \<times> state" where
  "on_message progress_callback msg s =
     (case msg of
        WSOther \<Rightarrow> (Inr Continue, s)
      | WSText (Inl msg) \<Rightarrow> (Inl (TransportError msg), s)
      | WSText (Inr data) \<Rightarrow>
          (case subscript data ''type'' of
             Inl e \<Rightarrow> (Inl e, s)
           | Inr t \<Rightarrow>
               if t = JStr ''progress'' then
                 (if progress_callback then
                    (case subscript data ''data'' of
                       Inl e \<Rightarrow> (Inl e, s)
                     | Inr d \<Rightarrow>
                         (case subscript d ''value'' of
                            Inl e \<Rightarrow> (Inl e, s)
                          | Inr v \<Rightarrow>
                              (case subscript d ''max'' of
                                 Inl e \<Rightarrow> (Inl e, s)
                               | Inr m \<Rightarrow>
                                   (Inr Continue,
                                    s\<lparr>progress_calls := progress_calls s @ [(v, m)]\<rparr>))))
                  else (Inr Continue, s))
               else if t = JStr ''executing'' then
                 (case subscript data ''data'' of
                    Inl e \<Rightarrow> (Inl e, s)
                  | Inr d \<Rightarrow>
                      (case subscript d ''node'' of
                         Inl e \<Rightarrow> (Inl e, s)
                       | Inr node \<Rightarrow> if node = JNull then (Inr Break, s) else (Inr Continue, s)))
               else if t = JStr ''execution_error'' then
                 (case dict_get data ''data'' (JObj []) of
                    Inl e \<Rightarrow> (Inl e, s)
                  | Inr error_msg \<Rightarrow> (Inl (ExecutionError error_msg), s))
               else (Inr Continue, s)))"

text \<open>
  \<^verbatim>\<open>async for msg in ws\<close>: \<open>Inr True\<close> when the loop was left by \<^verbatim>\<open>break\<close>, \<open>Inr False\<close>
  when the delivered frames are used up.
\<close>

fun receive_loop :: "bool \<Rightarrow> ws_msg list \<Rightarrow> state \<Rightarrow> (exn + bool) \<times> state" where
  "receive_loop progress_callback [] s = (Inr False, s)"
| "receive_loop progress_callback (msg # msgs) s =
     (case on_message progress_callback msg s of
        (Inl e, s') \<Rightarrow> (Inl e, s')
      | (Inr Break, s') \<Rightarrow> (Inr True, s')
      | (Inr Continue, s') \<Rightarrow> receive_loop progress_callback msgs s')"

text \<open>
  Lines 479--499: \<^verbatim>\<open>async with session.ws_connect(...) as ws\<close> closes the websocket
  however its body is left.
\<close>

definition track_progress :: "engine \<Rightarrow> bool \<Rightarrow> state \<Rightarrow> unit outcome \<times> state" where
  "track_progress eng progress_callback s =
     (case ws_connect eng of
        Inl msg \<Rightarrow> (Raises (TransportError msg), s)
      | Inr (msgs, closes) \<Rightarrow>
          (case receive_loop progress_callback msgs (s\<lparr>ws_open := True\<rparr>) of
             (Inl e, s') \<Rightarrow> (Raises e, s'\<lparr>ws_open := False\<rparr>)
           | (Inr broke, s') \<Rightarrow>
               if broke \<or> closes then (Returns (), s'\<lparr>ws_open := False\<rparr>)
               else (Blocks, s')))"

text \<open>Lines 510--531: the loop over \<^verbatim>\<open>outputs.items()\<close> and the final \<^verbatim>\<open>raise\<close>.\<close>

fun scan_outputs ::
  "engine \<Rightarrow> string \<Rightarrow> int \<Rightarrow> int \<Rightarrow> int \<Rightarrow> rat \<Rightarrow> int \<Rightarrow> jobj \<Rightarrow> exn + bytes \<times> jobj" where
  "scan_outputs eng prompt width height steps guidance seed [] = Inl NoImageFound"
| "scan_outputs eng prompt width height steps guidance seed ((node_id, output) # rest) =
     (case py_in ''images'' output of
        Inl e \<Rightarrow> Inl e
      | Inr found \<Rightarrow>
          if found then
            (case subscript output ''images'' of
               Inl e \<Rightarrow> Inl e
             | Inr images \<Rightarrow>
                 (case subscript0 images of
                    Inl e \<Rightarrow> Inl e
                  | Inr image_info \<Rightarrow>
                      (case subscript image_info ''filename'' of
                         Inl e \<Rightarrow> Inl e
                       | Inr filename \<Rightarrow>
                           (case dict_get image_info ''subfolder'' (JStr []) of
                              Inl e \<Rightarrow> Inl e
                            | Inr subfolder \<Rightarrow>
                                (case subscript image_info ''type'' of
                                   Inl e \<Rightarrow> Inl e
                                 | Inr folder_type \<Rightarrow>
                                     (case get_image eng filename subfolder folder_type of
                                        Inl e \<Rightarrow> Inl e
                                      | Inr image_bytes \<Rightarrow>
                                          Inr (image_bytes,
                                               [(''prompt'', JStr prompt),
                                                (''width'', JInt width),
                                                (''height'', JInt height),
                                                (''steps'', JInt steps),
                                                (''guidance'', JFloat guidance),
                                                (''seed'', JInt seed),
                                                (''filename'', filename)])))))))
          else scan_outputs eng prompt width height steps guidance seed rest)"

text \<open>Lines 501--531: the retrieval of the result of an accepted job.\<close>

definition fetch_result ::
  "engine \<Rightarrow> string \<Rightarrow> int \<Rightarrow> int \<Rightarrow> int \<Rightarrow> rat \<Rightarrow> int \<Rightarrow> json \<Rightarrow> exn + bytes \<times> jobj" where
  "fetch_result eng prompt width height steps guidance seed prompt_id =
     (case get_history eng prompt_id of
        Inl e \<Rightarrow> Inl e
      | Inr hist \<Rightarrow>
          (case py_contains prompt_id hist of
             Inl e \<Rightarrow> Inl e
           | Inr present \<Rightarrow>
               if \<not> present then Inl NoHistoryFound
               else
                 (case py_getitem hist prompt_id of
                    Inl e \<Rightarrow> Inl e
                  | Inr entry \<Rightarrow>
                      (case subscript entry ''outputs'' of
                         Inl e \<Rightarrow> Inl e
                       | Inr outputs \<Rightarrow>
                           (case outputs of
                              JObj items \<Rightarrow>
                                scan_outputs eng prompt width height steps guidance seed items
                            | _ \<Rightarrow> Inl AttributeError)))))"

text \<open>The whole method.\<close>

definition generate_image ::
  "engine \<Rightarrow> string \<Rightarrow> int \<Rightarrow> int \<Rightarrow> int \<Rightarrow> rat \<Rightarrow> int option \<Rightarrow> bool \<Rightarrow> state
     \<Rightarrow> (bytes \<times> jobj) outcome \<times> state" where
  "generate_image eng prompt width height steps guidance seed progress_callback s =
     (case default_seed seed (rng s) of (seed', r) \<Rightarrow>
     (case has_node eng ''UnetLoaderGGUF'' (s\<lparr>rng := r\<rparr>) of
        (Inl e, s1) \<Rightarrow> (Raises e, s1)
      | (Inr has_gguf_loader, s1) \<Rightarrow>
     (case has_node eng ''ModelSamplingFlux'' s1 of
        (Inl e, s2) \<Rightarrow> (Raises e, s2)
      | (Inr has_flux_sampling, s2) \<Rightarrow>
     (case initial_workflow prompt width height steps guidance seed'
             has_gguf_loader has_flux_sampling s2 of ((workflow, workflow_type), s3) \<Rightarrow>
     (case submit_with_fallback eng prompt width height steps guidance seed'
             has_flux_sampling workflow workflow_type s3 of
        (Inl e, s4) \<Rightarrow> (Raises e, s4)
      | (Inr prompt_id, s4) \<Rightarrow>
          (case track_progress eng progress_callback s4 of
             (Raises e, s5) \<Rightarrow> (Raises e, s5)
           | (Blocks, s5) \<Rightarrow> (Blocks, s5)
           | (Returns u, s5) \<Rightarrow>
               (case fetch_result eng prompt width height steps guidance seed' prompt_id of
                  Inl e \<Rightarrow> (Raises e, s5)
                | Inr result \<Rightarrow> (Returns result, s5))))))))"

subsection \<open>Notions the properties are stated with\<close>

text \<open>
  The capability set \<^verbatim>\<open>generate_image\<close> works with: the answers of its two calls of
  \<^verbatim>\<open>has_node\<close>, in the order of lines 402--403, or the exception of the first that raises.
\<close>

definition capability_set :: "engine \<Rightarrow> state \<Rightarrow> exn + bool \<times> bool" where
  "capability_set eng s =
     (case has_node eng ''UnetLoaderGGUF'' s of
        (Inl e, s1) \<Rightarrow> Inl e
      | (Inr has_gguf_loader, s1) \<Rightarrow>
          (case has_node eng ''ModelSamplingFlux'' s1 of
             (Inl e, s2) \<Rightarrow> Inl e
           | (Inr has_flux_sampling, s2) \<Rightarrow> Inr (has_gguf_loader, has_flux_sampling)))"

text \<open>The graph of a variant, named as \<^verbatim>\<open>workflow_type\<close> names it.\<close>

definition variant_graph :: "string \<Rightarrow> string \<Rightarrow> int \<Rightarrow> int \<Rightarrow> int \<Rightarrow> rat \<Rightarrow> int \<Rightarrow> jobj" where
  "variant_graph v prompt width height steps guidance seed =
     (if v = ''gguf'' then gguf_graph prompt width height steps guidance seed
      else if v = ''standard'' then standard_graph prompt width height steps guidance seed
      else simple_graph prompt width height steps guidance seed)"

definition priority :: "string \<Rightarrow> nat" where
  "priority v = (if v = ''gguf'' then 0 else if v = ''standard'' then 1 else 2)"

text \<open>
  The cascade in the words of the specification: the variants a capability set permits,
  from the one selected first down to simple, and their submission one after the other
  until the engine accepts one. \<open>run_attempts\<close> gives the attempts made, each with
  the graph submitted and what \<^verbatim>\<open>queue_prompt\<close> makes of the answer to it.
\<close>

definition cascade_order :: "bool \<Rightarrow> bool \<Rightarrow> string list" where
  "cascade_order quantized sampling =
     (if quantized then (if sampling then [''gguf'', ''standard'', ''simple'']
                         else [''gguf'', ''simple''])
      else if sampling then [''standard'', ''simple'']
      else [''simple''])"

fun run_attempts :: "engine \<Rightarrow> nat \<Rightarrow> jobj list \<Rightarrow> (jobj \<times> (exn + json)) list" where
  "run_attempts eng n [] = []"
| "run_attempts eng n (g # gs) =
     (case prompt_result (prompt_resp eng n g) of
        Inr prompt_id \<Rightarrow> [(g, Inr prompt_id)]
      | Inl e \<Rightarrow> (g, Inl e) # run_attempts eng (Suc n) gs)"

text \<open>The seed a submitted workflow carries: \<^verbatim>\<open>workflow["sampler"]["inputs"]["seed"]\<close>.\<close>

definition workflow_seed :: "jobj \<Rightarrow> exn + json" where
  "workflow_seed workflow =
     (case subscript (JObj workflow) ''sampler'' of
        Inl e \<Rightarrow> Inl e
      | Inr sampler \<Rightarrow>
          (case subscript sampler ''inputs'' of
             Inl e \<Rightarrow> Inl e
           | Inr inputs \<Rightarrow> subscript inputs ''seed''))"

text \<open>
  The state \<^verbatim>\<open>generate_image\<close> is in after its catalogue lookups, the attempts of its
  cascade (none when a lookup raised), and the state in which the cascade leaves it.
\<close>

definition probed :: "engine \<Rightarrow> state \<Rightarrow> state" where
  "probed eng s =
     (case has_node eng ''UnetLoaderGGUF'' s of
        (Inl e, s1) \<Rightarrow> s1
      | (Inr has_gguf_loader, s1) \<Rightarrow> snd (has_node eng ''ModelSamplingFlux'' s1))"

definition cascade_attempts ::
  "engine \<Rightarrow> string \<Rightarrow> int \<Rightarrow> int \<Rightarrow> int \<Rightarrow> rat \<Rightarrow> int option \<Rightarrow> state
     \<Rightarrow> (jobj \<times> (exn + json)) list" where
  "cascade_attempts eng prompt width height steps guidance seed s =
     (case capability_set eng s of
        Inl e \<Rightarrow> []
      | Inr caps \<Rightarrow>
          run_attempts eng (length (submitted s))
            (map (\<lambda>v. variant_graph v prompt width height steps guidance
                        (fst (default_seed seed (rng s))))
                 (cascade_order (fst caps) (snd caps))))"

definition committed ::
  "engine \<Rightarrow> string \<Rightarrow> int \<Rightarrow> int \<Rightarrow> int \<Rightarrow> rat \<Rightarrow> int option \<Rightarrow> state \<Rightarrow> state" where
  "committed eng prompt width height steps guidance seed s =
     (probed eng s)\<lparr>rng := snd (default_seed seed (rng s)),
        submitted := submitted s @
          map fst (cascade_attempts eng prompt width height steps guidance seed s)\<rparr>"

text \<open>
  A client as \<^verbatim>\<open>__init__\<close> leaves it, and the answers of \<open>n\<close> successive calls of
  \<^verbatim>\<open>get_available_nodes\<close>.
\<close>

definition new_client :: "rng \<Rightarrow> state" where
  "new_client r =
     \<lparr>available_nodes = JNull, fetches = 0, rng = r, submitted = [],
      ws_open = False, progress_calls = []\<rparr>"

fun repeated_lookups :: "engine \<Rightarrow> nat \<Rightarrow> state \<Rightarrow> json list \<times> state" where
  "repeated_lookups eng 0 s = ([], s)"
| "repeated_lookups eng (Suc n) s =
     (case get_available_nodes eng s of
        (nodes, s') \<Rightarrow>
          (case repeated_lookups eng n s' of
             (rest, s'') \<Rightarrow> (nodes # rest, s'')))"

subsection \<open>Engines for the examples\<close>

text \<open>
  An engine that knows both advanced node types, rejects the first submission and accepts
  the second, reports two progress events and the end of the execution, and has recorded
  one image for the job.
\<close>

definition full_catalogue :: json where
  "full_catalogue =
     JObj [(''KSampler'', JObj []), (''UnetLoaderGGUF'', JObj []),
           (''ModelSamplingFlux'', JObj [])]"

definition progress_event :: "int \<Rightarrow> int \<Rightarrow> json" where
  "progress_event v m =
     JObj [(''type'', JStr ''progress''),
           (''data'', JObj [(''value'', JInt v), (''max'', JInt m)])]"

definition executing_event :: "json \<Rightarrow> json" where
  "executing_event node =
     JObj [(''type'', JStr ''executing''), (''data'', JObj [(''node'', node)])]"

definition error_event :: "json \<Rightarrow> json" where
  "error_event detail = JObj [(''type'', JStr ''execution_error''), (''data'', detail)]"

definition image_entry :: json where
  "image_entry =
     JObj [(''filename'', JStr ''flux_gen_00001_.png''), (''subfolder'', JStr ''''),
           (''type'', JStr ''output'')]"

definition good_history :: json where
  "good_history =
     JObj [(''job-1'', JObj
        [(''outputs'', JObj
           [(''vae_decode'', JObj []),
            (''save_image'', JObj [(''images'', JList [image_entry])])])])]"

definition demo_engine :: engine where
  "demo_engine =
     \<lparr>object_info = (\<lambda>n. Inr full_catalogue),
      prompt_resp = (\<lambda>n g. if n = 0 then Inr (JObj [(''error'', JStr ''invalid prompt'')])
                            else Inr (JObj [(''prompt_id'', JStr ''job-1'')])),
      ws_connect = Inr ([WSText (Inr (progress_event 1 20)),
                         WSText (Inr (executing_event (JStr ''sampler''))),
                         WSText (Inr (progress_event 20 20)),
                         WSText (Inr (executing_event JNull))], False),
      history = (\<lambda>prompt_id. Inr good_history),
      view = (\<lambda>filename subfolder folder_type. Inr [137, 80, 78, 71])\<rparr>"

text \<open>The client of the examples.\<close>

definition demo_client :: state where
  "demo_client = new_client (\<lambda>n. 42)"

text \<open>The same engine, rejecting the n-th submission with the error n.\<close>

definition rejecting_engine :: engine where
  "rejecting_engine =
     demo_engine\<lparr>prompt_resp := (\<lambda>n g. Inr (JObj [(''error'', JInt (int n))]))\<rparr>"

text \<open>The same engine, reporting an execution error after the first progress event.\<close>

definition failing_engine :: engine where
  "failing_engine =
     demo_engine\<lparr>ws_connect :=
       Inr ([WSText (Inr (progress_event 1 20)),
             WSText (Inr (error_event (JObj [(''exception_message'', JStr ''out of memory'')]))),
             WSText (Inr (executing_event JNull))], True)\<rparr>"

text \<open>The same engine, whose history records an empty image list for the job.\<close>

definition empty_images_engine :: engine where
  "empty_images_engine =
     demo_engine\<lparr>history := (\<lambda>prompt_id.
       Inr (JObj [(''job-1'', JObj
              [(''outputs'', JObj [(''save_image'', JObj [(''images'', JList [])])])])]))\<rparr>"

text \<open>The same engine, whose history records no image for the job.\<close>

definition no_image_engine :: engine where
  "no_image_engine =
     demo_engine\<lparr>history := (\<lambda>prompt_id.
       Inr (JObj [(''job-1'', JObj [(''outputs'', JObj [(''vae_decode'', JObj [])])])]))\<rparr>"

text \<open>The same engine, unreachable at the first catalogue request only.\<close>

definition flaky_engine :: engine where
  "flaky_engine =
     demo_engine\<lparr>object_info := (\<lambda>n. if n = 0 then Inl ''connection refused''
                                       else Inr full_catalogue)\<rparr>"

text \<open>The same engine, answering the first catalogue request with JSON null.\<close>

definition null_engine :: engine where
  "null_engine =
     demo_engine\<lparr>object_info := (\<lambda>n. if n = 0 then Inr JNull else Inr full_catalogue)\<rparr>"

text \<open>
  The same engine, whose history records a null output before the one with the image.
\<close>

definition null_output_engine :: engine where
  "null_output_engine =
     demo_engine\<lparr>history := (\<lambda>prompt_id.
       Inr (JObj [(''job-1'', JObj
              [(''outputs'', JObj
                 [(''vae_decode'', JNull),
                  (''save_image'', JObj [(''images'', JList [image_entry])])])])]))\<rparr>"

section \<open>Properties of the builders\<close>

lemma create_explicit_seed:
  "create_flux2_workflow p w h st gd (Some sd) r = (standard_graph p w h st gd sd, r)"
  "create_flux2_workflow_gguf p w h st gd (Some sd) r = (gguf_graph p w h st gd sd, r)"
  "create_flux2_workflow_simple p w h st gd (Some sd) r = (simple_graph p w h st gd sd, r)"
  by (simp_all add: create_flux2_workflow_def create_flux2_workflow_gguf_def
        create_flux2_workflow_simple_def default_seed_def)

lemma create_any_seed:
  "fst (create_flux2_workflow p w h st gd seed r) =
     standard_graph p w h st gd (fst (default_seed seed r))"
  "fst (create_flux2_workflow_gguf p w h st gd seed r) =
     gguf_graph p w h st gd (fst (default_seed seed r))"
  "fst (create_flux2_workflow_simple p w h st gd seed r) =
     simple_graph p w h st gd (fst (default_seed seed r))"
  by (simp_all add: create_flux2_workflow_def create_flux2_workflow_gguf_def
        create_flux2_workflow_simple_def split: prod.splits)

lemmas graph_reading =
  terminal_nodes_def consumers_def node_refs_def node_inputs_def as_ref_def
  List.map_filter_simps nodes_of_class_def class_type_def refs_resolve_def

lemma standard_graph_shape:
  "terminal_nodes (standard_graph p w h st gd sd) = [''save_image'']"
  "nodes_of_class (standard_graph p w h st gd sd) ''SaveImage'' = [''save_image'']"
  "refs_resolve (standard_graph p w h st gd sd)"
  "distinct (map fst (standard_graph p w h st gd sd))"
  by (simp_all add: standard_graph_def graph_reading)

lemma gguf_graph_shape:
  "terminal_nodes (gguf_graph p w h st gd sd) = [''save_image'']"
  "nodes_of_class (gguf_graph p w h st gd sd) ''SaveImage'' = [''save_image'']"
  "refs_resolve (gguf_graph p w h st gd sd)"
  "distinct (map fst (gguf_graph p w h st gd sd))"
  by (simp_all add: gguf_graph_def graph_reading)

lemma simple_graph_shape:
  "terminal_nodes (simple_graph p w h st gd sd) = [''save_image'']"
  "nodes_of_class (simple_graph p w h st gd sd) ''SaveImage'' = [''save_image'']"
  "refs_resolve (simple_graph p w h st gd sd)"
  "distinct (map fst (simple_graph p w h st gd sd))"
  by (simp_all add: simple_graph_def graph_reading)

text \<open>
  C6. Whatever the parameters, the seed (given or drawn) and the state of the random
  module, the graph a builder returns has pairwise different node names, exactly one node
  that no node of the graph consumes, namely \<open>save_image\<close>, which is also its only node
  of class SaveImage, and every reference input of every node names a node of the graph.
\<close>

theorem builders_graph_invariant:
  assumes "g = fst (create_flux2_workflow p w h st gd seed r)
         \<or> g = fst (create_flux2_workflow_gguf p w h st gd seed r)
         \<or> g = fst (create_flux2_workflow_simple p w h st gd seed r)"
  shows "terminal_nodes g = [''save_image'']
       \<and> nodes_of_class g ''SaveImage'' = [''save_image'']
       \<and> refs_resolve g
       \<and> distinct (map fst g)"
  using assms
  by (auto simp add: create_any_seed standard_graph_shape gguf_graph_shape simple_graph_shape)

theorem builders_graph_invariant_witness:
  "terminal_nodes (fst (create_flux2_workflow_gguf ''a cat'' 1024 768 20 (7 / 2) None (\<lambda>n. 42)))
     = [''save_image'']
   \<and> nodes_of_class (fst (create_flux2_workflow_gguf ''a cat'' 1024 768 20 (7 / 2) None (\<lambda>n. 42)))
        ''SaveImage'' = [''save_image'']
   \<and> refs_resolve (fst (create_flux2_workflow_gguf ''a cat'' 1024 768 20 (7 / 2) None (\<lambda>n. 42)))
   \<and> distinct (map fst
        (fst (create_flux2_workflow_gguf ''a cat'' 1024 768 20 (7 / 2) None (\<lambda>n. 42))))"
  using builders_graph_invariant
    [of "fst (create_flux2_workflow_gguf ''a cat'' 1024 768 20 (7 / 2) None (\<lambda>n. 42))"
        "''a cat''" 1024 768 20 "7 / 2" None "\<lambda>n. 42"]
  by simp

text \<open>
  C9. With an explicit seed, the graph a builder returns is the same whatever the state
  of the random module, which the call leaves as it found it: two invocations with the
  same seed and parameters give identical graphs. This holds for each of the three
  builders.
\<close>

theorem builders_deterministic_with_seed:
  "fst (create_flux2_workflow p w h st gd (Some sd) r1) =
     fst (create_flux2_workflow p w h st gd (Some sd) r2)
   \<and> fst (create_flux2_workflow_gguf p w h st gd (Some sd) r1) =
       fst (create_flux2_workflow_gguf p w h st gd (Some sd) r2)
   \<and> fst (create_flux2_workflow_simple p w h st gd (Some sd) r1) =
       fst (create_flux2_workflow_simple p w h st gd (Some sd) r2)
   \<and> snd (create_flux2_workflow p w h st gd (Some sd) r1) = r1
   \<and> snd (create_flux2_workflow_gguf p w h st gd (Some sd) r1) = r1
   \<and> snd (create_flux2_workflow_simple p w h st gd (Some sd) r1) = r1"
  by (simp add: create_explicit_seed)

section \<open>The stages of generate\_image\<close>

lemma has_node_rng:
  "has_node eng n (s\<lparr>rng := r\<rparr>) = (fst (has_node eng n s), (snd (has_node eng n s))\<lparr>rng := r\<rparr>)"
  by (simp add: has_node_def get_available_nodes_def split: sum.splits)

lemma has_node_keeps:
  "submitted (snd (has_node eng n s)) = submitted s"
  "rng (snd (has_node eng n s)) = rng s"
  "ws_open (snd (has_node eng n s)) = ws_open s"
  "progress_calls (snd (has_node eng n s)) = progress_calls s"
  by (simp_all add: has_node_def get_available_nodes_def split: sum.splits)

lemma probed_keeps:
  "submitted (probed eng s) = submitted s"
  "rng (probed eng s) = rng s"
  "ws_open (probed eng s) = ws_open s"
  "progress_calls (probed eng s) = progress_calls s"
proof -
  obtain a s1 where h: "has_node eng ''UnetLoaderGGUF'' s = (a, s1)"
    by (cases "has_node eng ''UnetLoaderGGUF'' s")
  have k: "submitted s1 = submitted s" "rng s1 = rng s" "ws_open s1 = ws_open s"
    "progress_calls s1 = progress_calls s"
    using has_node_keeps[of eng "''UnetLoaderGGUF''" s] h by simp_all
  show "submitted (probed eng s) = submitted s"
    "rng (probed eng s) = rng s"
    "ws_open (probed eng s) = ws_open s"
    "progress_calls (probed eng s) = progress_calls s"
    using k by (simp_all add: probed_def h has_node_keeps split: sum.splits)
qed

lemma initial_workflow_spec:
  "initial_workflow p w h st gd sd hg hs s =
     ((variant_graph (hd (cascade_order hg hs)) p w h st gd sd, hd (cascade_order hg hs)), s)"
  by (simp add: initial_workflow_def cascade_order_def variant_graph_def create_explicit_seed)

lemma submit_with_fallback_spec:
  "submit_with_fallback eng p w h st gd sd hs
       (variant_graph (hd (cascade_order hg hs)) p w h st gd sd) (hd (cascade_order hg hs)) s =
     (snd (last (run_attempts eng (length (submitted s))
             (map (\<lambda>v. variant_graph v p w h st gd sd) (cascade_order hg hs)))),
      s\<lparr>submitted := submitted s @
           map fst (run_attempts eng (length (submitted s))
             (map (\<lambda>v. variant_graph v p w h st gd sd) (cascade_order hg hs)))\<rparr>)"
  by (cases hg; cases hs)
     (simp_all add: submit_with_fallback_def cascade_order_def variant_graph_def queue_prompt_def
        create_explicit_seed split: sum.splits prod.splits)

lemma run_attempts_take:
  "\<exists>k. (gs \<noteq> [] \<longrightarrow> 0 < k) \<and> k \<le> length gs \<and> map fst (run_attempts eng n gs) = take k gs"
proof (induction gs arbitrary: n)
  case Nil
  show ?case by simp
next
  case (Cons g gs)
  show ?case
  proof (cases "prompt_result (prompt_resp eng n g)")
    case (Inr pid)
    then show ?thesis by (intro exI[of _ 1]) simp
  next
    case (Inl e)
    from Cons.IH[where n = "Suc n"] obtain k where
      "k \<le> length gs" "map fst (run_attempts eng (Suc n) gs) = take k gs"
      by blast
    with Inl show ?thesis by (intro exI[of _ "Suc k"]) simp
  qed
qed

lemma on_message_keeps:
  "submitted (snd (on_message cb m s)) = submitted s"
  "rng (snd (on_message cb m s)) = rng s"
  "available_nodes (snd (on_message cb m s)) = available_nodes s"
  "fetches (snd (on_message cb m s)) = fetches s"
  "ws_open (snd (on_message cb m s)) = ws_open s"
  by (simp_all add: on_message_def split: ws_msg.splits sum.splits)

lemma receive_loop_keeps:
  "submitted (snd (receive_loop cb ms s)) = submitted s \<and>
   rng (snd (receive_loop cb ms s)) = rng s \<and>
   available_nodes (snd (receive_loop cb ms s)) = available_nodes s \<and>
   fetches (snd (receive_loop cb ms s)) = fetches s"
proof (induction ms arbitrary: s)
  case Nil
  show ?case by simp
next
  case (Cons m ms)
  obtain res s' where om: "on_message cb m s = (res, s')" by (cases "on_message cb m s")
  have k: "submitted s' = submitted s" "rng s' = rng s" "available_nodes s' = available_nodes s"
    "fetches s' = fetches s"
    using on_message_keeps[of cb m s] om by simp_all
  show ?case using Cons.IH[of s'] om k
    by (simp split: sum.splits loop_ctl.splits)
qed

lemma track_progress_keeps:
  "submitted (snd (track_progress eng cb s)) = submitted s \<and>
   rng (snd (track_progress eng cb s)) = rng s"
proof (cases "ws_connect eng")
  case (Inl e)
  then show ?thesis by (simp add: track_progress_def)
next
  case (Inr stream)
  obtain msgs closes where st: "stream = (msgs, closes)" by (cases stream)
  obtain res s' where rl: "receive_loop cb msgs (s\<lparr>ws_open := True\<rparr>) = (res, s')"
    by (cases "receive_loop cb msgs (s\<lparr>ws_open := True\<rparr>)")
  have "submitted s' = submitted s" "rng s' = rng s"
    using receive_loop_keeps[of cb msgs "s\<lparr>ws_open := True\<rparr>"] rl by simp_all
  then show ?thesis using Inr st rl
    by (simp add: track_progress_def split: sum.splits)
qed

text \<open>
  \<^verbatim>\<open>generate_image\<close> is its cascade, seen as the attempts of \<open>run_attempts\<close>, followed by
  the progress loop and the retrieval when the last attempt was accepted.
\<close>

lemma generate_image_cascade:
  "generate_image eng p w h st gd seed cb s =
     (case capability_set eng s of
        Inl e \<Rightarrow> (Raises e, (probed eng s)\<lparr>rng := snd (default_seed seed (rng s))\<rparr>)
      | Inr caps \<Rightarrow>
     (case snd (last (cascade_attempts eng p w h st gd seed s)) of
        Inl e \<Rightarrow> (Raises e, committed eng p w h st gd seed s)
      | Inr prompt_id \<Rightarrow>
          (case track_progress eng cb (committed eng p w h st gd seed s) of
             (Raises e, s5) \<Rightarrow> (Raises e, s5)
           | (Blocks, s5) \<Rightarrow> (Blocks, s5)
           | (Returns u, s5) \<Rightarrow>
               (case fetch_result eng p w h st gd (fst (default_seed seed (rng s))) prompt_id of
                  Inl e \<Rightarrow> (Raises e, s5)
                | Inr result \<Rightarrow> (Returns result, s5)))))"
proof -
  obtain sd r where ds: "default_seed seed (rng s) = (sd, r)" by (cases "default_seed seed (rng s)")
  obtain a1 s1 where h1: "has_node eng ''UnetLoaderGGUF'' s = (a1, s1)"
    by (cases "has_node eng ''UnetLoaderGGUF'' s")
  have h1': "has_node eng ''UnetLoaderGGUF'' (s\<lparr>rng := r\<rparr>) = (a1, s1\<lparr>rng := r\<rparr>)"
    by (simp add: has_node_rng h1)
  show ?thesis
  proof (cases a1)
    case raised: (Inl e)
    have caps: "capability_set eng s = Inl e" by (simp add: capability_set_def h1 raised)
    have pr: "probed eng s = s1" by (simp add: probed_def h1 raised)
    show ?thesis
      unfolding caps pr ds snd_conv
      by (simp add: generate_image_def ds h1' raised)
  next
    case gguf: (Inr hg)
    obtain a2 s2 where h2: "has_node eng ''ModelSamplingFlux'' s1 = (a2, s2)"
      by (cases "has_node eng ''ModelSamplingFlux'' s1")
    have h2': "has_node eng ''ModelSamplingFlux'' (s1\<lparr>rng := r\<rparr>) = (a2, s2\<lparr>rng := r\<rparr>)"
      by (simp add: has_node_rng h2)
    have pr: "probed eng s = s2" by (simp add: probed_def h1 gguf h2)
    show ?thesis
    proof (cases a2)
      case raised: (Inl e)
      have caps: "capability_set eng s = Inl e" by (simp add: capability_set_def h1 gguf h2 raised)
      show ?thesis
        unfolding caps pr ds snd_conv
        by (simp add: generate_image_def ds h1' gguf h2' raised)
    next
      case sampling: (Inr hs)
      have caps: "capability_set eng s = Inr (hg, hs)"
        by (simp add: capability_set_def h1 gguf h2 sampling)
      have sub: "submitted s2 = submitted s" using probed_keeps(1)[of eng s] pr by simp
      show ?thesis
        unfolding cascade_attempts_def committed_def ds caps pr fst_conv snd_conv sum.case
        by (simp add: generate_image_def ds h1' gguf h2' sampling
              initial_workflow_spec[where hg = hg]
              submit_with_fallback_spec[where hg = hg] sub split: sum.splits)
    qed
  qed
qed

lemma generate_image_answered:
  "capability_set eng s = Inr caps \<Longrightarrow>
   generate_image eng p w h st gd seed cb s =
     (case snd (last (cascade_attempts eng p w h st gd seed s)) of
        Inl e \<Rightarrow> (Raises e, committed eng p w h st gd seed s)
      | Inr prompt_id \<Rightarrow>
          (case track_progress eng cb (committed eng p w h st gd seed s) of
             (Raises e, s5) \<Rightarrow> (Raises e, s5)
           | (Blocks, s5) \<Rightarrow> (Blocks, s5)
           | (Returns u, s5) \<Rightarrow>
               (case fetch_result eng p w h st gd (fst (default_seed seed (rng s))) prompt_id of
                  Inl e \<Rightarrow> (Raises e, s5)
                | Inr result \<Rightarrow> (Returns result, s5))))"
  by (simp add: generate_image_cascade)

lemma generate_image_submitted:
  "submitted (snd (generate_image eng p w h st gd seed cb s)) =
     submitted s @ map fst (cascade_attempts eng p w h st gd seed s)"
proof (cases "capability_set eng s")
  case (Inl e)
  then show ?thesis
    by (simp add: generate_image_cascade cascade_attempts_def probed_keeps)
next
  case (Inr caps)
  have c: "submitted (committed eng p w h st gd seed s) =
             submitted s @ map fst (cascade_attempts eng p w h st gd seed s)"
    by (simp add: committed_def)
  obtain o5 s5 where tp: "track_progress eng cb (committed eng p w h st gd seed s) = (o5, s5)"
    by (cases "track_progress eng cb (committed eng p w h st gd seed s)")
  have s5: "submitted s5 = submitted (committed eng p w h st gd seed s)"
    using track_progress_keeps[of eng cb "committed eng p w h st gd seed s"] tp by simp
  show ?thesis
    by (simp add: generate_image_cascade Inr tp s5 c split: sum.splits outcome.splits)
qed

lemma generate_image_rng:
  "rng (snd (generate_image eng p w h st gd seed cb s)) = snd (default_seed seed (rng s))"
proof (cases "capability_set eng s")
  case (Inl e)
  then show ?thesis by (simp add: generate_image_cascade)
next
  case (Inr caps)
  have c: "rng (committed eng p w h st gd seed s) = snd (default_seed seed (rng s))"
    by (simp add: committed_def)
  obtain o5 s5 where tp: "track_progress eng cb (committed eng p w h st gd seed s) = (o5, s5)"
    by (cases "track_progress eng cb (committed eng p w h st gd seed s)")
  have s5: "rng s5 = rng (committed eng p w h st gd seed s)"
    using track_progress_keeps[of eng cb "committed eng p w h st gd seed s"] tp by simp
  show ?thesis
    by (simp add: generate_image_cascade Inr tp s5 c split: sum.splits outcome.splits)
qed

lemma graphs_differ:
  "gguf_graph p w h st gd sd \<noteq> standard_graph p w h st gd sd"
  "gguf_graph p w h st gd sd \<noteq> simple_graph p w h st gd sd"
  "standard_graph p w h st gd sd \<noteq> simple_graph p w h st gd sd"
  by (simp_all add: gguf_graph_def standard_graph_def simple_graph_def)

lemma variant_graph_seed:
  "workflow_seed (variant_graph v p w h st gd sd) = Inr (JInt sd)"
  by (simp add: variant_graph_def workflow_seed_def subscript_def
        gguf_graph_def standard_graph_def simple_graph_def)

lemma capability_set_cached:
  "available_nodes s = JObj nodes \<Longrightarrow>
     capability_set eng s =
       Inr (''UnetLoaderGGUF'' \<in> set (map fst nodes), ''ModelSamplingFlux'' \<in> set (map fst nodes))"
  by (simp add: capability_set_def has_node_def get_available_nodes_def py_in_def)

lemma new_client_fields:
  "available_nodes (new_client r) = JNull"
  "fetches (new_client r) = 0"
  "rng (new_client r) = r"
  "submitted (new_client r) = []"
  "ws_open (new_client r) = False"
  "progress_calls (new_client r) = []"
  by (simp_all add: new_client_def)

lemma capability_set_new_client:
  "object_info eng 0 = Inr (JObj nodes) \<Longrightarrow>
     capability_set eng (new_client r) =
       Inr (''UnetLoaderGGUF'' \<in> set (map fst nodes), ''ModelSamplingFlux'' \<in> set (map fst nodes))"
  by (simp add: capability_set_def has_node_def get_available_nodes_def new_client_def py_in_def)

lemma capability_set_full_catalogue:
  "object_info eng 0 = Inr full_catalogue \<Longrightarrow>
     capability_set eng (new_client r) = Inr (True, True)"
  by (simp add: full_catalogue_def capability_set_new_client)

lemma cascade_variants:
  assumes "capability_set eng s = Inr (hg, hs)"
  shows "\<exists>k. 0 < k \<and> k \<le> length (cascade_order hg hs) \<and>
     map fst (cascade_attempts eng p w h st gd seed s) =
       map (\<lambda>v. variant_graph v p w h st gd (fst (default_seed seed (rng s))))
         (take k (cascade_order hg hs))"
proof -
  let ?gs = "map (\<lambda>v. variant_graph v p w h st gd (fst (default_seed seed (rng s))))
               (cascade_order hg hs)"
  have ne: "?gs \<noteq> []" by (simp add: cascade_order_def)
  from run_attempts_take[of ?gs eng "length (submitted s)"] ne obtain k where
    "0 < k" "k \<le> length ?gs" "map fst (run_attempts eng (length (submitted s)) ?gs) = take k ?gs"
    by blast
  then show ?thesis using assms
    by (intro exI[of _ k]) (simp add: cascade_attempts_def take_map)
qed

lemma cascade_order_props:
  "length (cascade_order hg hs) \<le> 3"
  "sorted_wrt (\<lambda>a b. priority a < priority b) (cascade_order hg hs)"
  "set (cascade_order hg hs) \<subseteq> {''gguf'', ''standard'', ''simple''}"
  "\<not> hs \<Longrightarrow> ''standard'' \<notin> set (cascade_order hg hs)"
  "\<not> hg \<Longrightarrow> ''gguf'' \<notin> set (cascade_order hg hs)"
  by (simp_all add: cascade_order_def priority_def)

section \<open>The fallback cascade\<close>

text \<open>
  C1. Whatever the capability set \<open>(hg, hs)\<close> with which a call of \<^verbatim>\<open>generate_image\<close>
  works and whatever the engine answers, the workflows the call submits are the graphs of
  a list \<open>vs\<close> of variants with at least one and at most three members, strictly
  increasing in the order gguf, standard, simple; standard is not among them when
  ModelSamplingFlux is unsupported, gguf is not among them when UnetLoaderGGUF is
  unsupported, and \<open>vs\<close> is an initial part of the variants the capability set permits.
\<close>

theorem cascade_bounded_and_ordered:
  assumes "capability_set eng s = Inr (hg, hs)"
  shows "\<exists>vs. submitted (snd (generate_image eng p w h st gd seed cb s)) =
             submitted s @
               map (\<lambda>v. variant_graph v p w h st gd (fst (default_seed seed (rng s)))) vs
           \<and> vs \<noteq> [] \<and> length vs \<le> 3
           \<and> sorted_wrt (\<lambda>a b. priority a < priority b) vs
           \<and> set vs \<subseteq> {''gguf'', ''standard'', ''simple''}
           \<and> (\<not> hs \<longrightarrow> ''standard'' \<notin> set vs)
           \<and> (\<not> hg \<longrightarrow> ''gguf'' \<notin> set vs)
           \<and> prefix vs (cascade_order hg hs)"
proof -
  from cascade_variants[OF assms, of p w h st gd seed] obtain k where
    k: "0 < k" "k \<le> length (cascade_order hg hs)"
       "map fst (cascade_attempts eng p w h st gd seed s) =
          map (\<lambda>v. variant_graph v p w h st gd (fst (default_seed seed (rng s))))
            (take k (cascade_order hg hs))"
    by blast
  let ?vs = "take k (cascade_order hg hs)"
  have 1: "?vs \<noteq> []" using k by auto
  have 2: "length ?vs \<le> 3" using cascade_order_props(1)[of hg hs] by simp
  have 3: "sorted_wrt (\<lambda>a b. priority a < priority b) ?vs"
    using cascade_order_props(2)[of hg hs] by (rule sorted_wrt_take)
  have 4: "set ?vs \<subseteq> set (cascade_order hg hs)" by (rule set_take_subset)
  have 5: "prefix ?vs (cascade_order hg hs)" by (rule take_is_prefix)
  have 6: "set ?vs \<subseteq> {''gguf'', ''standard'', ''simple''}"
    using 4 cascade_order_props(3)[of hg hs] by blast
  have 7: "\<not> hs \<longrightarrow> ''standard'' \<notin> set ?vs"
    using 4 cascade_order_props(4)[of hs hg] by blast
  have 8: "\<not> hg \<longrightarrow> ''gguf'' \<notin> set ?vs"
    using 4 cascade_order_props(5)[of hg hs] by blast
  have 0: "submitted (snd (generate_image eng p w h st gd seed cb s)) =
             submitted s @
               map (\<lambda>v. variant_graph v p w h st gd (fst (default_seed seed (rng s)))) ?vs"
    by (simp add: generate_image_submitted k(3))
  show ?thesis
    using 0 1 2 3 5 6 7 8 by (intro exI[of _ ?vs]) blast
qed

theorem cascade_bounded_and_ordered_witness:
  "capability_set demo_engine (new_client (\<lambda>n. 42)) = Inr (True, True)
   \<and> (\<exists>vs. submitted (snd (generate_image demo_engine ''a cat'' 1024 768 20 (7 / 2) None True
                 (new_client (\<lambda>n. 42)))) =
             submitted (new_client (\<lambda>n. 42)) @
               map (\<lambda>v. variant_graph v ''a cat'' 1024 768 20 (7 / 2)
                          (fst (default_seed None (rng (new_client (\<lambda>n. 42)))))) vs
           \<and> vs \<noteq> [] \<and> length vs \<le> 3
           \<and> sorted_wrt (\<lambda>a b. priority a < priority b) vs
           \<and> set vs \<subseteq> {''gguf'', ''standard'', ''simple''}
           \<and> (\<not> True \<longrightarrow> ''standard'' \<notin> set vs)
           \<and> (\<not> True \<longrightarrow> ''gguf'' \<notin> set vs)
           \<and> prefix vs (cascade_order True True))"
proof -
  have h: "capability_set demo_engine (new_client (\<lambda>n. 42)) = Inr (True, True)"
    by (rule capability_set_full_catalogue) (simp add: demo_engine_def)
  show ?thesis
    by (rule conjI[OF h cascade_bounded_and_ordered[OF h]])
qed

lemma run_attempts_hd:
  "run_attempts eng n (g # gs) \<noteq> [] \<and> fst (hd (run_attempts eng n (g # gs))) = g"
  by (simp split: sum.splits)

lemma cascade_attempts_hd:
  assumes "capability_set eng s = Inr (hg, hs)"
  shows "cascade_attempts eng p w h st gd seed s \<noteq> [] \<and>
         fst (hd (cascade_attempts eng p w h st gd seed s)) =
           variant_graph (hd (cascade_order hg hs)) p w h st gd (fst (default_seed seed (rng s)))"
proof -
  obtain v vs where o: "cascade_order hg hs = v # vs"
    by (cases "cascade_order hg hs") (simp_all add: cascade_order_def split: if_splits)
  show ?thesis
    using run_attempts_hd[of eng "length (submitted s)"
            "variant_graph v p w h st gd (fst (default_seed seed (rng s)))"
            "map (\<lambda>v. variant_graph v p w h st gd (fst (default_seed seed (rng s)))) vs"]
    by (simp add: cascade_attempts_def assms o)
qed

text \<open>
  C2. The variant built first is a function of the capability set alone: with the answers
  \<open>(hg, hs)\<close> of the two catalogue lookups, the first workflow \<^verbatim>\<open>generate_image\<close>
  submits is the graph of \<^verbatim>\<open>create_flux2_workflow_gguf\<close> if UnetLoaderGGUF is supported,
  else that of \<^verbatim>\<open>create_flux2_workflow\<close> if ModelSamplingFlux is supported, else that of
  \<^verbatim>\<open>create_flux2_workflow_simple\<close>, each built with the seed of the call; the selection
  leaves the state as it was.
\<close>

theorem variant_selection:
  assumes "capability_set eng s = Inr (hg, hs)"
    and "sd = fst (default_seed seed (rng s))"
  shows "submitted (snd (generate_image eng p w h st gd seed cb s)) ! length (submitted s) =
           (if hg then fst (create_flux2_workflow_gguf p w h st gd (Some sd) r)
            else if hs then fst (create_flux2_workflow p w h st gd (Some sd) r)
            else fst (create_flux2_workflow_simple p w h st gd (Some sd) r))
       \<and> initial_workflow p w h st gd sd hg hs s' =
           ((if hg then (gguf_graph p w h st gd sd, ''gguf'')
             else if hs then (standard_graph p w h st gd sd, ''standard'')
             else (simple_graph p w h st gd sd, ''simple'')), s')"
proof -
  let ?A = "cascade_attempts eng p w h st gd seed s"
  have ne: "?A \<noteq> []" and hd: "fst (hd ?A) =
      variant_graph (hd (cascade_order hg hs)) p w h st gd sd"
    using cascade_attempts_hd[OF assms(1), of p w h st gd seed] assms(2) by simp_all
  have "submitted (snd (generate_image eng p w h st gd seed cb s)) ! length (submitted s) =
          fst (hd ?A)"
    using ne by (simp add: generate_image_submitted nth_append hd_conv_nth hd_map)
  then have 1: "submitted (snd (generate_image eng p w h st gd seed cb s)) ! length (submitted s) =
           (if hg then fst (create_flux2_workflow_gguf p w h st gd (Some sd) r)
            else if hs then fst (create_flux2_workflow p w h st gd (Some sd) r)
            else fst (create_flux2_workflow_simple p w h st gd (Some sd) r))"
    by (simp add: hd create_explicit_seed cascade_order_def variant_graph_def)
  have 2: "initial_workflow p w h st gd sd hg hs s' =
           ((if hg then (gguf_graph p w h st gd sd, ''gguf'')
             else if hs then (standard_graph p w h st gd sd, ''standard'')
             else (simple_graph p w h st gd sd, ''simple'')), s')"
    by (simp add: initial_workflow_def create_explicit_seed)
  show ?thesis using 1 2 by blast
qed

theorem variant_selection_witness:
  "capability_set flaky_engine (new_client (\<lambda>n. 42)) = Inr (False, True)
   \<and> (5::int) = fst (default_seed (Some 5) (rng (new_client (\<lambda>n. 42))))
   \<and> submitted (snd (generate_image flaky_engine ''a cat'' 1024 768 20 (7 / 2) (Some 5) True
         (new_client (\<lambda>n. 42)))) ! length (submitted (new_client (\<lambda>n. 42))) =
       fst (create_flux2_workflow ''a cat'' 1024 768 20 (7 / 2) (Some 5) (\<lambda>n. 42))
   \<and> initial_workflow ''a cat'' 1024 768 20 (7 / 2) 5 False True (new_client (\<lambda>n. 42)) =
       ((standard_graph ''a cat'' 1024 768 20 (7 / 2) 5, ''standard''), new_client (\<lambda>n. 42))"
proof -
  have h: "capability_set flaky_engine (new_client (\<lambda>n. 42)) = Inr (False, True)"
    by (simp add: capability_set_def has_node_def get_available_nodes_def flaky_engine_def
          demo_engine_def full_catalogue_def new_client_def py_in_def)
  have d: "(5::int) = fst (default_seed (Some 5) (rng (new_client (\<lambda>n. 42))))"
    by (simp add: default_seed_def)
  show ?thesis
    using h d variant_selection[OF h d, of "''a cat''" 1024 768 20 "7 / 2" True "\<lambda>n. 42"
        "new_client (\<lambda>n. 42)"]
    by simp
qed

lemma all_rejected:
  "(\<And>i. i < length gs \<Longrightarrow> prompt_result (prompt_resp eng (n + i) (gs ! i)) = Inl (err i)) \<Longrightarrow>
   run_attempts eng n gs = map (\<lambda>i. (gs ! i, Inl (err i))) [0..<length gs]"
proof (induction gs arbitrary: n err)
  case Nil
  show ?case by simp
next
  case (Cons g gs)
  have 0: "prompt_result (prompt_resp eng n g) = Inl (err 0)"
    using Cons.prems[of 0] by simp
  have "run_attempts eng (Suc n) gs = map (\<lambda>i. (gs ! i, Inl (err (Suc i)))) [0..<length gs]"
  proof (rule Cons.IH)
    fix i assume "i < length gs"
    then show "prompt_result (prompt_resp eng (Suc n + i) (gs ! i)) = Inl (err (Suc i))"
      using Cons.prems[of "Suc i"] by simp
  qed
  then show ?case
    by (simp add: 0 upt_conv_Cons map_Suc_upt[symmetric] del: upt_Suc)
qed

text \<open>
  C7, as the code has it. When every submission of the cascade fails, the simple one
  included, \<^verbatim>\<open>generate_image\<close> raises the error of the last submission it made, the
  simple one, and has submitted each permitted variant exactly once and nothing more. That
  error is the original one when simple was the first and only submission.
\<close>

theorem exhausted_cascade_surfaces_last_error:
  assumes "capability_set eng s = Inr (hg, hs)"
    and "sd = fst (default_seed seed (rng s))"
    and "\<forall>i < length (cascade_order hg hs).
           prompt_result (prompt_resp eng (length (submitted s) + i)
             (variant_graph (cascade_order hg hs ! i) p w h st gd sd)) = Inl (err i)"
  shows "fst (generate_image eng p w h st gd seed cb s) =
           Raises (err (length (cascade_order hg hs) - 1))
       \<and> submitted (snd (generate_image eng p w h st gd seed cb s)) =
           submitted s @ map (\<lambda>v. variant_graph v p w h st gd sd) (cascade_order hg hs)"
proof -
  let ?gs = "map (\<lambda>v. variant_graph v p w h st gd sd) (cascade_order hg hs)"
  have ra: "run_attempts eng (length (submitted s)) ?gs =
              map (\<lambda>i. (?gs ! i, Inl (err i))) [0..<length ?gs]"
    using assms(3) by (intro all_rejected) simp
  have A: "cascade_attempts eng p w h st gd seed s =
              map (\<lambda>i. (?gs ! i, Inl (err i))) [0..<length ?gs]"
    using ra by (simp add: cascade_attempts_def assms(1) assms(2))
  have ne: "cascade_order hg hs \<noteq> []" by (simp add: cascade_order_def)
  have l: "snd (last (cascade_attempts eng p w h st gd seed s)) =
             Inl (err (length (cascade_order hg hs) - 1))"
    using ne by (simp add: A last_map)
  have m: "map fst (cascade_attempts eng p w h st gd seed s) = ?gs"
    unfolding A by (rule nth_equalityI) simp_all
  have 1: "fst (generate_image eng p w h st gd seed cb s) =
             Raises (err (length (cascade_order hg hs) - 1))"
    by (simp add: generate_image_answered[OF assms(1)] l)
  have 2: "submitted (snd (generate_image eng p w h st gd seed cb s)) = submitted s @ ?gs"
    by (simp add: generate_image_submitted m)
  show ?thesis using 1 2 by blast
qed


theorem exhausted_cascade_surfaces_last_error_witness:
  "capability_set rejecting_engine (new_client (\<lambda>n. 42)) = Inr (True, True)
   \<and> (5::int) = fst (default_seed (Some 5) (rng (new_client (\<lambda>n. 42))))
   \<and> prompt_result (prompt_resp rejecting_engine (length (submitted (new_client (\<lambda>n. 42))) + 0)
         (variant_graph (cascade_order True True ! 0) ''a cat'' 1024 768 20 (7 / 2) 5)) =
       Inl (ComfyUIError (JInt (int 0)))
   \<and> prompt_result (prompt_resp rejecting_engine (length (submitted (new_client (\<lambda>n. 42))) + 1)
         (variant_graph (cascade_order True True ! 1) ''a cat'' 1024 768 20 (7 / 2) 5)) =
       Inl (ComfyUIError (JInt (int 1)))
   \<and> prompt_result (prompt_resp rejecting_engine (length (submitted (new_client (\<lambda>n. 42))) + 2)
         (variant_graph (cascade_order True True ! 2) ''a cat'' 1024 768 20 (7 / 2) 5)) =
       Inl (ComfyUIError (JInt (int 2)))
   \<and> fst (generate_image rejecting_engine ''a cat'' 1024 768 20 (7 / 2) (Some 5) False
           (new_client (\<lambda>n. 42))) =
         Raises (ComfyUIError (JInt (int (length (cascade_order True True) - 1))))
   \<and> submitted (snd (generate_image rejecting_engine ''a cat'' 1024 768 20 (7 / 2) (Some 5) False
           (new_client (\<lambda>n. 42)))) =
         submitted (new_client (\<lambda>n. 42)) @
           map (\<lambda>v. variant_graph v ''a cat'' 1024 768 20 (7 / 2) 5) (cascade_order True True)"
proof -
  have h: "capability_set rejecting_engine (new_client (\<lambda>n. 42)) = Inr (True, True)"
    by (rule capability_set_full_catalogue) (simp add: rejecting_engine_def demo_engine_def)
  have d: "(5::int) = fst (default_seed (Some 5) (rng (new_client (\<lambda>n. 42))))"
    by (simp add: default_seed_def)
  have f: "\<forall>i < length (cascade_order True True).
         prompt_result (prompt_resp rejecting_engine (length (submitted (new_client (\<lambda>n. 42))) + i)
           (variant_graph (cascade_order True True ! i) ''a cat'' 1024 768 20 (7 / 2) 5)) =
         Inl (ComfyUIError (JInt (int i)))"
    by (simp add: rejecting_engine_def prompt_result_def py_in_def subscript_def new_client_def)
  have f0: "prompt_result (prompt_resp rejecting_engine
         (length (submitted (new_client (\<lambda>n. 42))) + 0)
         (variant_graph (cascade_order True True ! 0) ''a cat'' 1024 768 20 (7 / 2) 5)) =
       Inl (ComfyUIError (JInt (int 0)))"
    and f1: "prompt_result (prompt_resp rejecting_engine
         (length (submitted (new_client (\<lambda>n. 42))) + 1)
         (variant_graph (cascade_order True True ! 1) ''a cat'' 1024 768 20 (7 / 2) 5)) =
       Inl (ComfyUIError (JInt (int 1)))"
    and f2: "prompt_result (prompt_resp rejecting_engine
         (length (submitted (new_client (\<lambda>n. 42))) + 2)
         (variant_graph (cascade_order True True ! 2) ''a cat'' 1024 768 20 (7 / 2) 5)) =
       Inl (ComfyUIError (JInt (int 2)))"
    by (simp_all add: rejecting_engine_def prompt_result_def py_in_def subscript_def
          new_client_def)
  show ?thesis
    using h d f0 f1 f2 exhausted_cascade_surfaces_last_error[OF h d f, of False] by blast
qed

text \<open>
  C7 as stated fails: with both advanced node types available and an engine that rejects
  the n-th submission with the error n, the first submission raises error 0, and the call
  surfaces error 2, the one of the third submission.
\<close>

theorem original_error_not_surfaced_counterexample:
  "fst (queue_prompt rejecting_engine (gguf_graph ''a cat'' 1024 768 20 (7 / 2) 5)
          (new_client (\<lambda>n. 42))) = Inl (ComfyUIError (JInt 0))
   \<and> fst (generate_image rejecting_engine ''a cat'' 1024 768 20 (7 / 2) (Some 5) False
           (new_client (\<lambda>n. 42))) = Raises (ComfyUIError (JInt 2))
   \<and> submitted (snd (generate_image rejecting_engine ''a cat'' 1024 768 20 (7 / 2) (Some 5) False
           (new_client (\<lambda>n. 42)))) =
       [gguf_graph ''a cat'' 1024 768 20 (7 / 2) 5,
        standard_graph ''a cat'' 1024 768 20 (7 / 2) 5,
        simple_graph ''a cat'' 1024 768 20 (7 / 2) 5]"
proof -
  have h: "capability_set rejecting_engine (new_client (\<lambda>n. 42)) = Inr (True, True)"
    by (rule capability_set_full_catalogue) (simp add: rejecting_engine_def demo_engine_def)
  have a: "cascade_attempts rejecting_engine ''a cat'' 1024 768 20 (7 / 2) (Some 5)
             (new_client (\<lambda>n. 42)) =
           [(gguf_graph ''a cat'' 1024 768 20 (7 / 2) 5, Inl (ComfyUIError (JInt 0))),
            (standard_graph ''a cat'' 1024 768 20 (7 / 2) 5, Inl (ComfyUIError (JInt 1))),
            (simple_graph ''a cat'' 1024 768 20 (7 / 2) 5, Inl (ComfyUIError (JInt 2)))]"
    unfolding cascade_attempts_def h
    by (simp add: cascade_order_def variant_graph_def default_seed_def
          rejecting_engine_def prompt_result_def py_in_def subscript_def new_client_def)
  have 1: "fst (queue_prompt rejecting_engine (gguf_graph ''a cat'' 1024 768 20 (7 / 2) 5)
          (new_client (\<lambda>n. 42))) = Inl (ComfyUIError (JInt 0))"
    by (simp add: queue_prompt_def rejecting_engine_def prompt_result_def py_in_def
          subscript_def new_client_def)
  have 2: "fst (generate_image rejecting_engine ''a cat'' 1024 768 20 (7 / 2) (Some 5) False
           (new_client (\<lambda>n. 42))) = Raises (ComfyUIError (JInt 2))"
    by (simp add: generate_image_answered[OF h] a)
  have 3: "submitted (snd (generate_image rejecting_engine ''a cat'' 1024 768 20 (7 / 2) (Some 5)
           False (new_client (\<lambda>n. 42)))) =
       [gguf_graph ''a cat'' 1024 768 20 (7 / 2) 5,
        standard_graph ''a cat'' 1024 768 20 (7 / 2) 5,
        simple_graph ''a cat'' 1024 768 20 (7 / 2) 5]"
    by (simp add: generate_image_submitted a new_client_fields)
  show ?thesis using 1 2 3 by blast
qed

text \<open>
  C10. Every workflow one call of \<^verbatim>\<open>generate_image\<close> submits carries the same seed in its
  sampler: the seed the caller gave, or else the value of the single draw the call makes
  before it looks at the catalogue; the call consumes no further draw, whatever the
  number of fallback submissions. When the catalogue lookups answer, the call submits at
  least one workflow.
\<close>

theorem cascade_keeps_seed:
  "list_all (\<lambda>g. workflow_seed g = Inr (JInt (fst (default_seed seed (rng s)))))
      (drop (length (submitted s)) (submitted (snd (generate_image eng p w h st gd seed cb s))))
   \<and> (capability_set eng s = Inr (hg, hs) \<longrightarrow>
        drop (length (submitted s))
          (submitted (snd (generate_image eng p w h st gd seed cb s))) \<noteq> [])
   \<and> rng (snd (generate_image eng p w h st gd seed cb s)) =
       (case seed of None \<Rightarrow> (\<lambda>n. rng s (Suc n)) | Some v \<Rightarrow> rng s)
   \<and> fst (default_seed seed (rng s)) =
       (case seed of None \<Rightarrow> int (rng s 0) mod 2 ^ 31 | Some v \<Rightarrow> v)"
proof -
  let ?new = "drop (length (submitted s))
                (submitted (snd (generate_image eng p w h st gd seed cb s)))"
  have n: "?new = map fst (cascade_attempts eng p w h st gd seed s)"
    by (simp add: generate_image_submitted)
  have v: "capability_set eng s = Inr (hg', hs') \<Longrightarrow>
      \<exists>k. 0 < k \<and> ?new = map (\<lambda>v. variant_graph v p w h st gd (fst (default_seed seed (rng s))))
            (take k (cascade_order hg' hs'))" for hg' hs'
    using cascade_variants[of eng s hg' hs' p w h st gd seed] n by auto
  have 1: "list_all (\<lambda>g. workflow_seed g = Inr (JInt (fst (default_seed seed (rng s))))) ?new"
  proof (cases "capability_set eng s")
    case (Inl e)
    then show ?thesis unfolding n by (simp add: cascade_attempts_def)
  next
    case (Inr caps)
    obtain hg' hs' where "caps = (hg', hs')" by (cases caps)
    with Inr v[of hg' hs'] obtain k where
      "?new = map (\<lambda>v. variant_graph v p w h st gd (fst (default_seed seed (rng s))))
            (take k (cascade_order hg' hs'))"
      by blast
    then show ?thesis by (simp add: list_all_iff variant_graph_seed)
  qed
  have 2: "capability_set eng s = Inr (hg, hs) \<longrightarrow> ?new \<noteq> []"
  proof
    assume c: "capability_set eng s = Inr (hg, hs)"
    from v[OF c] obtain k where k: "0 < k"
      "?new = map (\<lambda>v. variant_graph v p w h st gd (fst (default_seed seed (rng s))))
            (take k (cascade_order hg hs))"
      by blast
    have "cascade_order hg hs \<noteq> []" by (simp add: cascade_order_def)
    with k show "?new \<noteq> []" by simp
  qed
  have 3: "rng (snd (generate_image eng p w h st gd seed cb s)) =
       (case seed of None \<Rightarrow> (\<lambda>n. rng s (Suc n)) | Some v \<Rightarrow> rng s)"
    by (simp add: generate_image_rng default_seed_def randint_def split: option.splits)
  have 4: "fst (default_seed seed (rng s)) =
       (case seed of None \<Rightarrow> int (rng s 0) mod 2 ^ 31 | Some v \<Rightarrow> v)"
    by (simp add: default_seed_def randint_def split: option.splits)
  show ?thesis using 1 2 3 4 by blast
qed

theorem cascade_keeps_seed_witness:
  "list_all (\<lambda>g. workflow_seed g = Inr (JInt (fst (default_seed None (rng (new_client (\<lambda>n. 42)))))))
      (drop (length (submitted (new_client (\<lambda>n. 42))))
         (submitted (snd (generate_image demo_engine ''a cat'' 1024 768 20 (7 / 2) None True
            (new_client (\<lambda>n. 42))))))
   \<and> drop (length (submitted (new_client (\<lambda>n. 42))))
         (submitted (snd (generate_image demo_engine ''a cat'' 1024 768 20 (7 / 2) None True
            (new_client (\<lambda>n. 42))))) \<noteq> []
   \<and> rng (snd (generate_image demo_engine ''a cat'' 1024 768 20 (7 / 2) None True
            (new_client (\<lambda>n. 42)))) =
       (case (None :: int option) of None \<Rightarrow> (\<lambda>n. rng (new_client (\<lambda>n. 42)) (Suc n))
        | Some v \<Rightarrow> rng (new_client (\<lambda>n. 42)))
   \<and> fst (default_seed None (rng (new_client (\<lambda>n. 42)))) =
       (case (None :: int option) of None \<Rightarrow> int (rng (new_client (\<lambda>n. 42)) 0) mod 2 ^ 31
        | Some v \<Rightarrow> v)"
proof -
  have h: "capability_set demo_engine (new_client (\<lambda>n. 42)) = Inr (True, True)"
    by (rule capability_set_full_catalogue) (simp add: demo_engine_def)
  show ?thesis
    using h cascade_keeps_seed[where seed = None and s = "new_client (\<lambda>n. 42)"
        and eng = demo_engine and p = "''a cat''" and w = 1024 and h = 768 and st = 20
        and gd = "7 / 2" and cb = True and hg = True and hs = True]
    by blast
qed

section \<open>The progress loop\<close>

lemma receive_loop_append:
  "receive_loop cb pre s = (Inr False, s') \<Longrightarrow>
     receive_loop cb (pre @ ms) s = receive_loop cb ms s'"
proof (induction pre arbitrary: s)
  case Nil
  then show ?case by simp
next
  case (Cons m pre)
  obtain res s1 where om: "on_message cb m s = (res, s1)" by (cases "on_message cb m s")
  show ?case
  proof (cases res)
    case (Inl e)
    with Cons.prems om show ?thesis by simp
  next
    case (Inr ctl)
    show ?thesis
    proof (cases ctl)
      case Continue
      with Cons.prems om Inr have "receive_loop cb pre s1 = (Inr False, s')" by simp
      from Cons.IH[OF this] om Inr Continue show ?thesis by simp
    next
      case Break
      with Cons.prems om Inr show ?thesis by simp
    qed
  qed
qed

lemma on_progress:
  assumes "subscript ev ''type'' = Inr (JStr ''progress'')"
    and "subscript ev ''data'' = Inr d" and "subscript d ''value'' = Inr v"
    and "subscript d ''max'' = Inr m"
  shows "on_message cb (WSText (Inr ev)) s =
           (Inr Continue, if cb then s\<lparr>progress_calls := progress_calls s @ [(v, m)]\<rparr> else s)"
  using assms by (simp add: on_message_def)

lemma on_executing:
  assumes "subscript ev ''type'' = Inr (JStr ''executing'')"
    and "subscript ev ''data'' = Inr d" and "subscript d ''node'' = Inr node"
  shows "on_message cb (WSText (Inr ev)) s = (Inr (if node = JNull then Break else Continue), s)"
  using assms by (simp add: on_message_def)

lemma on_execution_error:
  assumes "subscript ev ''type'' = Inr (JStr ''execution_error'')"
  shows "\<exists>detail. dict_get ev ''data'' (JObj []) = Inr detail \<and>
           on_message cb (WSText (Inr ev)) s = (Inl (ExecutionError detail), s)"
  using assms by (cases ev) (auto simp add: on_message_def subscript_def dict_get_def split: option.splits)

text \<open>
  C4. Let the websocket deliver the frames \<open>pre\<close>, then a text frame decoded to \<open>ev\<close>, and
  let the loop reach \<open>ev\<close> in the state \<open>s'\<close>. If \<open>ev\<close> is a progress event with value
  \<open>v\<close> and max \<open>m\<close>, the callback, when the caller passed one, is called with \<open>(v, m)\<close>,
  nothing else changes and the loop goes on with the next frame. If \<open>ev\<close> is an executing
  event with a node other than null, nothing changes and the loop goes on. If \<open>ev\<close> is an
  executing event with node null, the monitoring returns normally, whatever frames
  follow, with the websocket closed. If \<open>ev\<close> is an execution\_error event, the monitoring
  raises the execution error carrying the event's data, with the websocket closed.
\<close>

theorem progress_monitor_events:
  assumes stream: "ws_connect eng = Inr (pre @ WSText (Inr ev) # rest, closes)"
    and before: "receive_loop cb pre (s\<lparr>ws_open := True\<rparr>) = (Inr False, s')"
  shows "(subscript ev ''type'' = Inr (JStr ''progress'') \<and> subscript ev ''data'' = Inr d
            \<and> subscript d ''value'' = Inr v \<and> subscript d ''max'' = Inr m \<longrightarrow>
          on_message cb (WSText (Inr ev)) s' =
            (Inr Continue, if cb then s'\<lparr>progress_calls := progress_calls s' @ [(v, m)]\<rparr> else s')
          \<and> receive_loop cb (pre @ WSText (Inr ev) # rest) (s\<lparr>ws_open := True\<rparr>) =
              receive_loop cb rest
                (if cb then s'\<lparr>progress_calls := progress_calls s' @ [(v, m)]\<rparr> else s'))
       \<and> (subscript ev ''type'' = Inr (JStr ''executing'') \<and> subscript ev ''data'' = Inr d
            \<and> subscript d ''node'' = Inr node \<and> node \<noteq> JNull \<longrightarrow>
          on_message cb (WSText (Inr ev)) s' = (Inr Continue, s')
          \<and> receive_loop cb (pre @ WSText (Inr ev) # rest) (s\<lparr>ws_open := True\<rparr>) =
              receive_loop cb rest s')
       \<and> (subscript ev ''type'' = Inr (JStr ''executing'') \<and> subscript ev ''data'' = Inr d
            \<and> subscript d ''node'' = Inr JNull \<longrightarrow>
          track_progress eng cb s = (Returns (), s'\<lparr>ws_open := False\<rparr>))
       \<and> (subscript ev ''type'' = Inr (JStr ''execution_error'') \<longrightarrow>
          (\<exists>detail. dict_get ev ''data'' (JObj []) = Inr detail
             \<and> track_progress eng cb s = (Raises (ExecutionError detail), s'\<lparr>ws_open := False\<rparr>)))"
proof -
  note app = receive_loop_append[OF before, of "WSText (Inr ev) # rest"]
  have 1: "subscript ev ''type'' = Inr (JStr ''progress'') \<and> subscript ev ''data'' = Inr d
            \<and> subscript d ''value'' = Inr v \<and> subscript d ''max'' = Inr m \<longrightarrow>
          on_message cb (WSText (Inr ev)) s' =
            (Inr Continue, if cb then s'\<lparr>progress_calls := progress_calls s' @ [(v, m)]\<rparr> else s')
          \<and> receive_loop cb (pre @ WSText (Inr ev) # rest) (s\<lparr>ws_open := True\<rparr>) =
              receive_loop cb rest
                (if cb then s'\<lparr>progress_calls := progress_calls s' @ [(v, m)]\<rparr> else s')"
    by (simp add: app on_progress)
  have 2: "subscript ev ''type'' = Inr (JStr ''executing'') \<and> subscript ev ''data'' = Inr d
            \<and> subscript d ''node'' = Inr node \<and> node \<noteq> JNull \<longrightarrow>
          on_message cb (WSText (Inr ev)) s' = (Inr Continue, s')
          \<and> receive_loop cb (pre @ WSText (Inr ev) # rest) (s\<lparr>ws_open := True\<rparr>) =
              receive_loop cb rest s'"
    by (simp add: app on_executing)
  have 3: "subscript ev ''type'' = Inr (JStr ''executing'') \<and> subscript ev ''data'' = Inr d
            \<and> subscript d ''node'' = Inr JNull \<longrightarrow>
          track_progress eng cb s = (Returns (), s'\<lparr>ws_open := False\<rparr>)"
    by (simp add: track_progress_def stream app on_executing)
  have 4: "subscript ev ''type'' = Inr (JStr ''execution_error'') \<longrightarrow>
          (\<exists>detail. dict_get ev ''data'' (JObj []) = Inr detail
             \<and> track_progress eng cb s = (Raises (ExecutionError detail), s'\<lparr>ws_open := False\<rparr>))"
  proof
    assume t: "subscript ev ''type'' = Inr (JStr ''execution_error'')"
    from on_execution_error[OF t, of cb s'] obtain detail where
      d: "dict_get ev ''data'' (JObj []) = Inr detail"
         "on_message cb (WSText (Inr ev)) s' = (Inl (ExecutionError detail), s')"
      by blast
    have "track_progress eng cb s = (Raises (ExecutionError detail), s'\<lparr>ws_open := False\<rparr>)"
      by (simp add: track_progress_def stream app d(2))
    with d(1) show "\<exists>detail. dict_get ev ''data'' (JObj []) = Inr detail
             \<and> track_progress eng cb s = (Raises (ExecutionError detail), s'\<lparr>ws_open := False\<rparr>)"
      by blast
  qed
  show ?thesis using 1 2 3 4 by blast
qed

theorem progress_monitor_events_witness:
  "on_message True (WSText (Inr (progress_event 1 20))) (demo_client\<lparr>ws_open := True\<rparr>) =
     (Inr Continue,
      demo_client\<lparr>ws_open := True,
        progress_calls := progress_calls (demo_client\<lparr>ws_open := True\<rparr>) @ [(JInt 1, JInt 20)]\<rparr>)
   \<and> on_message True (WSText (Inr (executing_event (JStr ''sampler''))))
         (demo_client\<lparr>ws_open := True, progress_calls := [(JInt 1, JInt 20)]\<rparr>) =
       (Inr Continue, demo_client\<lparr>ws_open := True, progress_calls := [(JInt 1, JInt 20)]\<rparr>)
   \<and> track_progress demo_engine True demo_client =
       (Returns (),
        demo_client\<lparr>ws_open := True,
          progress_calls := [(JInt 1, JInt 20), (JInt 20, JInt 20)], ws_open := False\<rparr>)
   \<and> track_progress failing_engine True demo_client =
       (Raises (ExecutionError (JObj [(''exception_message'', JStr ''out of memory'')])),
        demo_client\<lparr>ws_open := True, progress_calls := [(JInt 1, JInt 20)], ws_open := False\<rparr>)"
proof -
  let ?P1 = "WSText (Inr (progress_event 1 20))"
  let ?Xs = "WSText (Inr (executing_event (JStr ''sampler'')))"
  let ?P20 = "WSText (Inr (progress_event 20 20))"
  let ?Xn = "WSText (Inr (executing_event JNull))"
  let ?E = "WSText (Inr (error_event (JObj [(''exception_message'', JStr ''out of memory'')])))"
  have pc: "progress_calls demo_client = []"
    by (simp add: demo_client_def new_client_def)
  have st1: "ws_connect demo_engine = Inr ([] @ ?P1 # [?Xs, ?P20, ?Xn], False)"
    by (simp add: demo_engine_def)
  have bf1: "receive_loop True [] (demo_client\<lparr>ws_open := True\<rparr>) =
               (Inr False, demo_client\<lparr>ws_open := True\<rparr>)"
    by simp
  have st2: "ws_connect demo_engine = Inr ([?P1] @ ?Xs # [?P20, ?Xn], False)"
    by (simp add: demo_engine_def)
  have bf2: "receive_loop True [?P1] (demo_client\<lparr>ws_open := True\<rparr>) =
               (Inr False, demo_client\<lparr>ws_open := True, progress_calls := [(JInt 1, JInt 20)]\<rparr>)"
    by (simp add: on_message_def progress_event_def subscript_def pc)
  have st3: "ws_connect demo_engine = Inr ([?P1, ?Xs, ?P20] @ ?Xn # [], False)"
    by (simp add: demo_engine_def)
  have bf3: "receive_loop True [?P1, ?Xs, ?P20] (demo_client\<lparr>ws_open := True\<rparr>) =
               (Inr False, demo_client\<lparr>ws_open := True,
                  progress_calls := [(JInt 1, JInt 20), (JInt 20, JInt 20)]\<rparr>)"
    by (simp add: on_message_def progress_event_def executing_event_def subscript_def pc)
  have st4: "ws_connect failing_engine = Inr ([?P1] @ ?E # [?Xn], True)"
    by (simp add: failing_engine_def)
  have 1: "on_message True ?P1 (demo_client\<lparr>ws_open := True\<rparr>) =
     (Inr Continue,
      demo_client\<lparr>ws_open := True,
        progress_calls := progress_calls (demo_client\<lparr>ws_open := True\<rparr>) @ [(JInt 1, JInt 20)]\<rparr>)"
    using progress_monitor_events[OF st1 bf1,
            where d = "JObj [(''value'', JInt 1), (''max'', JInt 20)]" and v = "JInt 1"
              and m = "JInt 20"]
    by (simp add: progress_event_def subscript_def)
  have 2: "on_message True ?Xs
         (demo_client\<lparr>ws_open := True, progress_calls := [(JInt 1, JInt 20)]\<rparr>) =
       (Inr Continue, demo_client\<lparr>ws_open := True, progress_calls := [(JInt 1, JInt 20)]\<rparr>)"
    using progress_monitor_events[OF st2 bf2,
            where d = "JObj [(''node'', JStr ''sampler'')]" and node = "JStr ''sampler''"]
    by (simp add: executing_event_def subscript_def)
  have 3: "track_progress demo_engine True demo_client =
       (Returns (),
        demo_client\<lparr>ws_open := True,
          progress_calls := [(JInt 1, JInt 20), (JInt 20, JInt 20)], ws_open := False\<rparr>)"
    using progress_monitor_events[OF st3 bf3, where d = "JObj [(''node'', JNull)]"]
    by (simp add: executing_event_def subscript_def)
  have 4: "track_progress failing_engine True demo_client =
       (Raises (ExecutionError (JObj [(''exception_message'', JStr ''out of memory'')])),
        demo_client\<lparr>ws_open := True, progress_calls := [(JInt 1, JInt 20)], ws_open := False\<rparr>)"
    using progress_monitor_events[OF st4 bf2]
    by (simp add: error_event_def subscript_def dict_get_def)
  show ?thesis using 1 2 3 4 by blast
qed

section \<open>Failures after a job was accepted\<close>

lemma on_message_fst:
  "fst (on_message cb m s) = fst (on_message cb m t)"
proof (cases m)
  case WSOther
  then show ?thesis by (simp add: on_message_def)
next
  case (WSText x)
  show ?thesis
  proof (cases x)
    case (Inl msg)
    with WSText show ?thesis by (simp add: on_message_def)
  next
    case (Inr data)
    note m = WSText Inr
    show ?thesis
    proof (cases "subscript data ''type''")
      case (Inl e)
      with m show ?thesis by (simp add: on_message_def)
    next
      case (Inr ty)
      have p: "ty = JStr ''progress'' \<Longrightarrow> ?thesis"
        using m Inr by (cases "subscript data ''data''")
          (simp_all add: on_message_def split: sum.splits)
      have e: "ty = JStr ''executing'' \<Longrightarrow> ?thesis"
        using m Inr by (cases "subscript data ''data''")
          (simp_all add: on_message_def split: sum.splits)
      have x: "ty = JStr ''execution_error'' \<Longrightarrow> ?thesis"
        using m Inr by (cases "dict_get data ''data'' (JObj [])")
          (simp_all add: on_message_def)
      have o: "ty \<noteq> JStr ''progress'' \<Longrightarrow> ty \<noteq> JStr ''executing'' \<Longrightarrow>
               ty \<noteq> JStr ''execution_error'' \<Longrightarrow> ?thesis"
        using m Inr by (simp add: on_message_def)
      show ?thesis using p e x o by blast
    qed
  qed
qed

lemma receive_loop_all_continue:
  "list_all (\<lambda>m. fst (on_message cb m t) = Inr Continue) pre \<Longrightarrow>
     fst (receive_loop cb pre s) = Inr False"
proof (induction pre arbitrary: s)
  case Nil
  show ?case by simp
next
  case (Cons m pre)
  obtain res s1 where om: "on_message cb m s = (res, s1)" by (cases "on_message cb m s")
  have "fst (on_message cb m s) = Inr Continue"
    using Cons.prems on_message_fst[of cb m s t] by simp
  with om have res: "res = Inr Continue" by simp
  from Cons.prems have "list_all (\<lambda>m. fst (on_message cb m t) = Inr Continue) pre" by simp
  from Cons.IH[OF this, of s1] show ?case by (simp add: om res)
qed

lemma run_attempts_butlast:
  "list_all (\<lambda>a. isl (snd a)) (butlast (run_attempts eng n gs))"
  by (induction gs arbitrary: n) (auto split: sum.splits)

lemma run_attempts_cong:
  "prompt_resp eng' = prompt_resp eng \<Longrightarrow> run_attempts eng' n gs = run_attempts eng n gs"
  by (induction gs arbitrary: n) (auto split: sum.splits)

lemma capability_set_cong:
  "object_info eng' = object_info eng \<Longrightarrow> capability_set eng' s = capability_set eng s"
  by (simp add: capability_set_def has_node_def get_available_nodes_def
        split: sum.splits)

lemma cascade_attempts_cong:
  "object_info eng' = object_info eng \<Longrightarrow> prompt_resp eng' = prompt_resp eng \<Longrightarrow>
     cascade_attempts eng' p w h st gd seed s = cascade_attempts eng p w h st gd seed s"
  by (simp add: cascade_attempts_def capability_set_cong[of eng' eng]
        run_attempts_cong[of eng' eng] split: sum.splits)

text \<open>
  C3. Let the catalogue lookups of a call of \<^verbatim>\<open>generate_image\<close> answer and its cascade
  end with an accepted job, and let the websocket then deliver frames that do not end the loop, followed by an execution\_error
  event. Then the call raises the execution error carrying the event's data; what it
  submitted is exactly the attempts of the cascade, every one of which but the last (the
  accepted one) had failed at submission; and the workflows a call submits do not depend
  on what the websocket, the history or the download answer: no event and no failure
  after the acceptance makes the client build or submit a workflow.
\<close>

theorem execution_error_surfaced_not_retried:
  assumes answered: "capability_set eng s = Inr (hg, hs)"
    and accepted: "snd (last (cascade_attempts eng p w h st gd seed s)) = Inr prompt_id"
    and stream: "ws_connect eng = Inr (pre @ WSText (Inr ev) # rest, closes)"
    and before: "list_all (\<lambda>m. fst (on_message cb m s) = Inr Continue) pre"
    and err: "subscript ev ''type'' = Inr (JStr ''execution_error'')"
  shows "(\<exists>detail. dict_get ev ''data'' (JObj []) = Inr detail
            \<and> fst (generate_image eng p w h st gd seed cb s) = Raises (ExecutionError detail))
       \<and> submitted (snd (generate_image eng p w h st gd seed cb s)) =
           submitted s @ map fst (cascade_attempts eng p w h st gd seed s)
       \<and> list_all (\<lambda>a. isl (snd a)) (butlast (cascade_attempts eng p w h st gd seed s))
       \<and> submitted (snd (generate_image (eng\<lparr>ws_connect := c, history := hh, view := vv\<rparr>)
                            p w h st gd seed cb s)) =
           submitted (snd (generate_image eng p w h st gd seed cb s))"
proof -
  let ?c = "committed eng p w h st gd seed s"
  obtain res s' where rl: "receive_loop cb pre (?c\<lparr>ws_open := True\<rparr>) = (res, s')"
    by (cases "receive_loop cb pre (?c\<lparr>ws_open := True\<rparr>)")
  have "res = Inr False"
    using receive_loop_all_continue[OF before, of "?c\<lparr>ws_open := True\<rparr>"] rl by simp
  with rl have rl': "receive_loop cb pre (?c\<lparr>ws_open := True\<rparr>) = (Inr False, s')" by simp
  from on_execution_error[OF err, of cb s'] obtain detail where
    d: "dict_get ev ''data'' (JObj []) = Inr detail"
       "on_message cb (WSText (Inr ev)) s' = (Inl (ExecutionError detail), s')"
    by blast
  have tp: "track_progress eng cb ?c = (Raises (ExecutionError detail), s'\<lparr>ws_open := False\<rparr>)"
    by (simp add: track_progress_def stream receive_loop_append[OF rl'] d(2))
  have "fst (generate_image eng p w h st gd seed cb s) = Raises (ExecutionError detail)"
    by (simp add: generate_image_answered[OF answered] accepted tp)
  with d(1) have 1: "\<exists>detail. dict_get ev ''data'' (JObj []) = Inr detail
            \<and> fst (generate_image eng p w h st gd seed cb s) = Raises (ExecutionError detail)"
    by blast
  have 3: "list_all (\<lambda>a. isl (snd a)) (butlast (cascade_attempts eng p w h st gd seed s))"
    by (simp add: cascade_attempts_def answered run_attempts_butlast)
  have 4: "submitted (snd (generate_image (eng\<lparr>ws_connect := c, history := hh, view := vv\<rparr>)
                            p w h st gd seed cb s)) =
           submitted (snd (generate_image eng p w h st gd seed cb s))"
    by (simp add: generate_image_submitted
          cascade_attempts_cong[of "eng\<lparr>ws_connect := c, history := hh, view := vv\<rparr>" eng])
  show ?thesis using 1 3 4 generate_image_submitted[of eng p w h st gd seed cb s] by blast
qed

theorem execution_error_surfaced_not_retried_witness:
  "capability_set failing_engine demo_client = Inr (True, True)
   \<and> snd (last (cascade_attempts failing_engine ''a cat'' 1024 768 20 (7 / 2) (Some 5) demo_client))
     = Inr (JStr ''job-1'')
   \<and> ws_connect failing_engine =
       Inr ([WSText (Inr (progress_event 1 20))] @
            WSText (Inr (error_event (JObj [(''exception_message'', JStr ''out of memory'')]))) #
            [WSText (Inr (executing_event JNull))], True)
   \<and> list_all (\<lambda>m. fst (on_message True m demo_client) = Inr Continue)
        [WSText (Inr (progress_event 1 20))]
   \<and> subscript (error_event (JObj [(''exception_message'', JStr ''out of memory'')])) ''type''
       = Inr (JStr ''execution_error'')
   \<and> (\<exists>detail.
         dict_get (error_event (JObj [(''exception_message'', JStr ''out of memory'')])) ''data''
           (JObj []) = Inr detail
         \<and> fst (generate_image failing_engine ''a cat'' 1024 768 20 (7 / 2) (Some 5) True
                  demo_client) = Raises (ExecutionError detail))
   \<and> submitted (snd (generate_image failing_engine ''a cat'' 1024 768 20 (7 / 2) (Some 5) True
                       demo_client)) =
       submitted demo_client @
         map fst (cascade_attempts failing_engine ''a cat'' 1024 768 20 (7 / 2) (Some 5) demo_client)
   \<and> list_all (\<lambda>a. isl (snd a))
        (butlast (cascade_attempts failing_engine ''a cat'' 1024 768 20 (7 / 2) (Some 5)
                    demo_client))
   \<and> submitted (snd (generate_image
          (failing_engine\<lparr>ws_connect := ws_connect demo_engine, history := history demo_engine,
             view := view demo_engine\<rparr>)
          ''a cat'' 1024 768 20 (7 / 2) (Some 5) True demo_client)) =
       submitted (snd (generate_image failing_engine ''a cat'' 1024 768 20 (7 / 2) (Some 5) True
                         demo_client))"
proof -
  have h: "capability_set failing_engine demo_client = Inr (True, True)"
    unfolding demo_client_def
    by (rule capability_set_full_catalogue) (simp add: failing_engine_def demo_engine_def)
  have a1: "snd (last (cascade_attempts failing_engine ''a cat'' 1024 768 20 (7 / 2) (Some 5)
                         demo_client)) = Inr (JStr ''job-1'')"
    unfolding cascade_attempts_def h
    by (simp add: cascade_order_def failing_engine_def demo_engine_def prompt_result_def
          py_in_def subscript_def demo_client_def new_client_fields)
  have a2: "ws_connect failing_engine =
       Inr ([WSText (Inr (progress_event 1 20))] @
            WSText (Inr (error_event (JObj [(''exception_message'', JStr ''out of memory'')]))) #
            [WSText (Inr (executing_event JNull))], True)"
    by (simp add: failing_engine_def)
  have a3: "list_all (\<lambda>m. fst (on_message True m demo_client) = Inr Continue)
        [WSText (Inr (progress_event 1 20))]"
    by (simp add: on_message_def progress_event_def subscript_def)
  have a4: "subscript (error_event (JObj [(''exception_message'', JStr ''out of memory'')])) ''type''
       = Inr (JStr ''execution_error'')"
    by (simp add: error_event_def subscript_def)
  show ?thesis
    using h a1 a2 a3 a4
      execution_error_surfaced_not_retried[OF h a1 a2 a3 a4,
        where c = "ws_connect demo_engine" and hh = "history demo_engine"
          and vv = "view demo_engine"]
    by blast
qed

section \<open>Retrieval of the result\<close>

lemma subscript_errors:
  "subscript obj key \<noteq> Inl NoImageFound" "subscript obj key \<noteq> Inl NoHistoryFound"
  by (simp_all add: subscript_def split: json.splits option.splits)

lemma subscript0_errors:
  "subscript0 obj \<noteq> Inl NoImageFound" "subscript0 obj \<noteq> Inl NoHistoryFound"
  by (simp_all add: subscript0_def split: json.splits list.splits)

lemma dict_get_errors:
  "dict_get obj key dflt \<noteq> Inl NoImageFound" "dict_get obj key dflt \<noteq> Inl NoHistoryFound"
  by (simp_all add: dict_get_def split: json.splits option.splits)

lemma py_in_errors:
  "py_in key obj \<noteq> Inl NoImageFound" "py_in key obj \<noteq> Inl NoHistoryFound"
  by (simp_all add: py_in_def split: json.splits)

lemma py_contains_errors:
  "py_contains x obj \<noteq> Inl NoImageFound" "py_contains x obj \<noteq> Inl NoHistoryFound"
  by (simp_all add: py_contains_def split: json.splits)

lemma py_index_errors:
  "py_index xs i \<noteq> Inl NoImageFound" "py_index xs i \<noteq> Inl NoHistoryFound"
  by (simp_all add: py_index_def)

lemma py_getitem_errors:
  "py_getitem obj x \<noteq> Inl NoImageFound" "py_getitem obj x \<noteq> Inl NoHistoryFound"
  by (auto simp add: py_getitem_def py_index_errors split: json.splits option.splits sum.splits)

lemma test_raises_TypeError:
  "py_contains x obj = Inl e \<Longrightarrow> e = TypeError"
  "py_in key obj = Inl e \<Longrightarrow> e = TypeError"
  by (auto simp add: py_contains_def py_in_def split: json.splits)

lemma get_image_errors:
  "get_image eng f d t \<noteq> Inl NoImageFound" "get_image eng f d t \<noteq> Inl NoHistoryFound"
  by (simp_all add: get_image_def split: sum.splits)

lemma get_history_errors:
  "get_history eng k \<noteq> Inl NoImageFound" "get_history eng k \<noteq> Inl NoHistoryFound"
  by (simp_all add: get_history_def split: sum.splits)

lemmas lookup_errors =
  subscript_errors subscript0_errors dict_get_errors py_in_errors py_contains_errors
  py_getitem_errors get_image_errors get_history_errors

text \<open>What the body of the loop does with an output that exposes images.\<close>

lemma scan_outputs_found:
  assumes "py_in ''images'' output = Inr True"
  shows "scan_outputs eng p w h st gd sd ((node_id, output) # rest) \<noteq> Inl NoImageFound
       \<and> scan_outputs eng p w h st gd sd ((node_id, output) # rest) \<noteq> Inl NoHistoryFound"
  using assms by (auto simp add: lookup_errors split: sum.splits)


lemma scan_outputs_no_history_error:
  "scan_outputs eng p w h st gd sd items \<noteq> Inl NoHistoryFound"
proof (induction items)
  case Nil
  show ?case by simp
next
  case (Cons kv items)
  obtain node_id out where kv: "kv = (node_id, out)" by (cases kv)
  show ?case
  proof (cases "py_in ''images'' out")
    case (Inl e)
    then show ?thesis using py_in_errors(2)[of "''images''" out] by (simp add: kv)
  next
    case (Inr found)
    show ?thesis
    proof (cases found)
      case True
      with Inr scan_outputs_found[of out eng p w h st gd sd node_id items]
      show ?thesis by (simp add: kv)
    next
      case False
      with Inr Cons.IH show ?thesis by (simp add: kv)
    qed
  qed
qed

lemma scan_outputs_no_image:
  "scan_outputs eng p w h st gd sd items = Inl NoImageFound \<longleftrightarrow>
     list_all (\<lambda>kv. py_in ''images'' (snd kv) = Inr False) items"
proof (induction items)
  case Nil
  show ?case by simp
next
  case (Cons kv items)
  obtain node_id out where kv: "kv = (node_id, out)" by (cases kv)
  show ?case
  proof (cases "py_in ''images'' out")
    case (Inl e)
    then show ?thesis using py_in_errors(1)[of "''images''" out] by (simp add: kv)
  next
    case (Inr found)
    show ?thesis
    proof (cases found)
      case True
      with Inr scan_outputs_found[of out eng p w h st gd sd node_id items]
      show ?thesis by (simp add: kv)
    next
      case False
      with Inr Cons.IH show ?thesis by (simp add: kv)
    qed
  qed
qed

lemma scan_outputs_skip:
  "list_all (\<lambda>kv. py_in ''images'' (snd kv) = Inr False) skipped \<Longrightarrow>
     scan_outputs eng p w h st gd sd (skipped @ items) = scan_outputs eng p w h st gd sd items"
  by (induction skipped) auto

lemma fetch_result_no_history:
  "fetch_result eng p w h st gd sd prompt_id = Inl NoHistoryFound \<longleftrightarrow>
     (\<exists>hist. history eng prompt_id = Inr hist \<and> py_contains prompt_id hist = Inr False)"
proof (cases "history eng prompt_id")
  case (Inl msg)
  then show ?thesis by (simp add: fetch_result_def get_history_def)
next
  case (Inr hist)
  then have gh: "get_history eng prompt_id = Inr hist" by (simp add: get_history_def)
  show ?thesis
  proof (cases "py_contains prompt_id hist")
    case (Inl e)
    then show ?thesis using py_contains_errors(2)[of prompt_id hist]
      by (simp add: fetch_result_def gh Inr)
  next
    case present: (Inr present)
    show ?thesis
    proof (cases present)
      case False
      with present show ?thesis by (simp add: fetch_result_def gh Inr)
    next
      case True
      have "fetch_result eng p w h st gd sd prompt_id \<noteq> Inl NoHistoryFound"
        using present True
        by (auto simp add: fetch_result_def gh lookup_errors scan_outputs_no_history_error
              split: sum.splits json.splits)
      then show ?thesis using present True by (simp add: Inr)
    qed
  qed
qed

lemma fetch_result_no_image:
  "fetch_result eng p w h st gd sd prompt_id = Inl NoImageFound \<longleftrightarrow>
     (\<exists>hist entry items. history eng prompt_id = Inr hist \<and> py_contains prompt_id hist = Inr True
        \<and> py_getitem hist prompt_id = Inr entry \<and> subscript entry ''outputs'' = Inr (JObj items)
        \<and> list_all (\<lambda>kv. py_in ''images'' (snd kv) = Inr False) items)"
proof (cases "history eng prompt_id")
  case (Inl msg)
  then show ?thesis by (simp add: fetch_result_def get_history_def)
next
  case (Inr hist)
  then have gh: "get_history eng prompt_id = Inr hist" by (simp add: get_history_def)
  show ?thesis
  proof (cases "py_contains prompt_id hist")
    case (Inl e)
    then show ?thesis using py_contains_errors(1)[of prompt_id hist]
      by (simp add: fetch_result_def gh Inr)
  next
    case present: (Inr present)
    show ?thesis
    proof (cases present)
      case False
      with present show ?thesis by (simp add: fetch_result_def gh Inr)
    next
      case True
      show ?thesis
      proof (cases "py_getitem hist prompt_id")
        case (Inl e)
        then show ?thesis using py_getitem_errors(1)[of hist prompt_id] present True
          by (simp add: fetch_result_def gh Inr)
      next
        case entry: (Inr entry)
        show ?thesis
        proof (cases "subscript entry ''outputs''")
          case (Inl e)
          then show ?thesis using subscript_errors(1)[of entry "''outputs''"] present True entry
            by (simp add: fetch_result_def gh Inr)
        next
          case outputs: (Inr outputs)
          show ?thesis
            using present True entry outputs
            by (cases outputs)
               (simp_all add: fetch_result_def gh Inr scan_outputs_no_image)
        qed
      qed
    qed
  qed
qed

text \<open>
  C5, as the code has it. The retrieval raises ``Generation failed - no history found''
  exactly when the engine returned a history and the test \<^verbatim>\<open>prompt_id in history\<close> answers
  false. It raises ``No image found in output'' exactly when that test answers true,
  \<^verbatim>\<open>history[prompt_id]["outputs"]\<close> is a dict, and the test \<^verbatim>\<open>"images" in output\<close> answers
  false for every recorded node output. When that test answers false for the outputs
  before one that is a dict whose \<^verbatim>\<open>"images"\<close> is a non-empty list, the first entry of the
  list is a dict with a filename and a type, and the download succeeds, the retrieval
  returns the downloaded bytes and the metadata: the input parameters and that filename.
  Where one of the two tests itself raises (an unhashable job id, a history or a node
  output that is null or a number), the retrieval raises that TypeError.
\<close>

theorem fetch_result_outcomes:
  "(fetch_result eng p w h st gd sd prompt_id = Inl NoHistoryFound \<longleftrightarrow>
      (\<exists>hist. history eng prompt_id = Inr hist \<and> py_contains prompt_id hist = Inr False))
   \<and> (fetch_result eng p w h st gd sd prompt_id = Inl NoImageFound \<longleftrightarrow>
      (\<exists>hist entry items. history eng prompt_id = Inr hist
        \<and> py_contains prompt_id hist = Inr True
        \<and> py_getitem hist prompt_id = Inr entry \<and> subscript entry ''outputs'' = Inr (JObj items)
        \<and> list_all (\<lambda>kv. py_in ''images'' (snd kv) = Inr False) items))
   \<and> (history eng prompt_id = Inr hist \<and> py_contains prompt_id hist = Inr True
        \<and> py_getitem hist prompt_id = Inr entry
        \<and> subscript entry ''outputs'' = Inr (JObj (skipped @ (node_id, out) # others))
        \<and> list_all (\<lambda>kv. py_in ''images'' (snd kv) = Inr False) skipped
        \<and> subscript out ''images'' = Inr (JList (image_info # further))
        \<and> subscript image_info ''filename'' = Inr filename
        \<and> dict_get image_info ''subfolder'' (JStr []) = Inr subfolder
        \<and> subscript image_info ''type'' = Inr folder_type
        \<and> view eng filename subfolder folder_type = Inr image_bytes \<longrightarrow>
      fetch_result eng p w h st gd sd prompt_id =
        Inr (image_bytes,
             [(''prompt'', JStr p), (''width'', JInt w), (''height'', JInt h),
              (''steps'', JInt st), (''guidance'', JFloat gd), (''seed'', JInt sd),
              (''filename'', filename)]))
   \<and> (history eng prompt_id = Inr hist \<and> py_contains prompt_id hist = Inl e \<longrightarrow>
      fetch_result eng p w h st gd sd prompt_id = Inl TypeError)
   \<and> (history eng prompt_id = Inr hist \<and> py_contains prompt_id hist = Inr True
        \<and> py_getitem hist prompt_id = Inr entry
        \<and> subscript entry ''outputs'' = Inr (JObj (skipped @ (node_id, out) # others))
        \<and> list_all (\<lambda>kv. py_in ''images'' (snd kv) = Inr False) skipped
        \<and> py_in ''images'' out = Inl e \<longrightarrow>
      fetch_result eng p w h st gd sd prompt_id = Inl TypeError)"
proof -
  have 3: "history eng prompt_id = Inr hist \<and> py_contains prompt_id hist = Inr True
        \<and> py_getitem hist prompt_id = Inr entry
        \<and> subscript entry ''outputs'' = Inr (JObj (skipped @ (node_id, out) # others))
        \<and> list_all (\<lambda>kv. py_in ''images'' (snd kv) = Inr False) skipped
        \<and> subscript out ''images'' = Inr (JList (image_info # further))
        \<and> subscript image_info ''filename'' = Inr filename
        \<and> dict_get image_info ''subfolder'' (JStr []) = Inr subfolder
        \<and> subscript image_info ''type'' = Inr folder_type
        \<and> view eng filename subfolder folder_type = Inr image_bytes \<longrightarrow>
      fetch_result eng p w h st gd sd prompt_id =
        Inr (image_bytes,
             [(''prompt'', JStr p), (''width'', JInt w), (''height'', JInt h),
              (''steps'', JInt st), (''guidance'', JFloat gd), (''seed'', JInt sd),
              (''filename'', filename)])"
  proof (intro impI, elim conjE)
    assume a: "history eng prompt_id = Inr hist" "py_contains prompt_id hist = Inr True"
      "py_getitem hist prompt_id = Inr entry"
      "subscript entry ''outputs'' = Inr (JObj (skipped @ (node_id, out) # others))"
      "list_all (\<lambda>kv. py_in ''images'' (snd kv) = Inr False) skipped"
      "subscript out ''images'' = Inr (JList (image_info # further))"
      "subscript image_info ''filename'' = Inr filename"
      "dict_get image_info ''subfolder'' (JStr []) = Inr subfolder"
      "subscript image_info ''type'' = Inr folder_type"
      "view eng filename subfolder folder_type = Inr image_bytes"
    have found: "py_in ''images'' out = Inr True"
      using a(6) by (cases out) (auto simp add: subscript_def py_in_def split: option.splits
        dest: map_of_SomeD intro: rev_image_eqI)
    have "scan_outputs eng p w h st gd sd (skipped @ (node_id, out) # others) =
            Inr (image_bytes,
             [(''prompt'', JStr p), (''width'', JInt w), (''height'', JInt h),
              (''steps'', JInt st), (''guidance'', JFloat gd), (''seed'', JInt sd),
              (''filename'', filename)])"
      by (simp add: scan_outputs_skip[OF a(5)] found a subscript0_def get_image_def)
    then show "fetch_result eng p w h st gd sd prompt_id =
        Inr (image_bytes,
             [(''prompt'', JStr p), (''width'', JInt w), (''height'', JInt h),
              (''steps'', JInt st), (''guidance'', JFloat gd), (''seed'', JInt sd),
              (''filename'', filename)])"
      by (simp add: fetch_result_def get_history_def a)
  qed
  have 4: "history eng prompt_id = Inr hist \<and> py_contains prompt_id hist = Inl e \<longrightarrow>
      fetch_result eng p w h st gd sd prompt_id = Inl TypeError"
    using test_raises_TypeError(1)[of prompt_id hist e]
    by (auto simp add: fetch_result_def get_history_def)
  have 5: "history eng prompt_id = Inr hist \<and> py_contains prompt_id hist = Inr True
        \<and> py_getitem hist prompt_id = Inr entry
        \<and> subscript entry ''outputs'' = Inr (JObj (skipped @ (node_id, out) # others))
        \<and> list_all (\<lambda>kv. py_in ''images'' (snd kv) = Inr False) skipped
        \<and> py_in ''images'' out = Inl e \<longrightarrow>
      fetch_result eng p w h st gd sd prompt_id = Inl TypeError"
  proof (intro impI, elim conjE)
    assume a: "history eng prompt_id = Inr hist" "py_contains prompt_id hist = Inr True"
      "py_getitem hist prompt_id = Inr entry"
      "subscript entry ''outputs'' = Inr (JObj (skipped @ (node_id, out) # others))"
      "list_all (\<lambda>kv. py_in ''images'' (snd kv) = Inr False) skipped"
      "py_in ''images'' out = Inl e"
    have e: "e = TypeError" using a(6) by (rule test_raises_TypeError(2))
    have "scan_outputs eng p w h st gd sd (skipped @ (node_id, out) # others) = Inl TypeError"
      using a(6) e by (simp add: scan_outputs_skip[OF a(5)])
    then show "fetch_result eng p w h st gd sd prompt_id = Inl TypeError"
      by (simp add: fetch_result_def get_history_def a)
  qed
  show ?thesis
    using fetch_result_no_history[of eng p w h st gd sd prompt_id]
      fetch_result_no_image[of eng p w h st gd sd prompt_id] 3 4 5
    by blast
qed

theorem fetch_result_outcomes_witness:
  "fetch_result demo_engine ''a cat'' 1024 768 20 (7 / 2) 5 (JStr ''job-2'') = Inl NoHistoryFound
   \<and> fetch_result no_image_engine ''a cat'' 1024 768 20 (7 / 2) 5 (JStr ''job-1'')
       = Inl NoImageFound
   \<and> fetch_result demo_engine ''a cat'' 1024 768 20 (7 / 2) 5 (JStr ''job-1'') =
       Inr ([137, 80, 78, 71],
            [(''prompt'', JStr ''a cat''), (''width'', JInt 1024), (''height'', JInt 768),
             (''steps'', JInt 20), (''guidance'', JFloat (7 / 2)), (''seed'', JInt 5),
             (''filename'', JStr ''flux_gen_00001_.png'')])
   \<and> fetch_result demo_engine ''a cat'' 1024 768 20 (7 / 2) 5 (JList [JStr ''job-1''])
       = Inl TypeError
   \<and> fetch_result null_output_engine ''a cat'' 1024 768 20 (7 / 2) 5 (JStr ''job-1'')
       = Inl TypeError"
proof -
  have 1: "fetch_result demo_engine ''a cat'' 1024 768 20 (7 / 2) 5 (JStr ''job-2'')
             = Inl NoHistoryFound"
    using fetch_result_outcomes[of demo_engine "''a cat''" 1024 768 20 "7 / 2" 5 "JStr ''job-2''"]
    by (simp add: demo_engine_def good_history_def py_contains_def)
  have 2: "fetch_result no_image_engine ''a cat'' 1024 768 20 (7 / 2) 5 (JStr ''job-1'')
             = Inl NoImageFound"
    using fetch_result_outcomes[of no_image_engine "''a cat''" 1024 768 20 "7 / 2" 5
            "JStr ''job-1''"]
    by (simp add: no_image_engine_def py_contains_def py_getitem_def subscript_def py_in_def)
  have 3: "fetch_result demo_engine ''a cat'' 1024 768 20 (7 / 2) 5 (JStr ''job-1'') =
       Inr ([137, 80, 78, 71],
            [(''prompt'', JStr ''a cat''), (''width'', JInt 1024), (''height'', JInt 768),
             (''steps'', JInt 20), (''guidance'', JFloat (7 / 2)), (''seed'', JInt 5),
             (''filename'', JStr ''flux_gen_00001_.png'')])"
    using fetch_result_outcomes[where eng = demo_engine and p = "''a cat''" and w = 1024
            and h = 768 and st = 20 and gd = "7 / 2" and sd = 5 and prompt_id = "JStr ''job-1''"
            and hist = good_history
            and entry = "JObj [(''outputs'', JObj
               [(''vae_decode'', JObj []),
                (''save_image'', JObj [(''images'', JList [image_entry])])])]"
            and skipped = "[(''vae_decode'', JObj [])]" and node_id = "''save_image''"
            and out = "JObj [(''images'', JList [image_entry])]" and others = "[]"
            and image_info = image_entry and further = "[]"
            and filename = "JStr ''flux_gen_00001_.png''" and subfolder = "JStr []"
            and folder_type = "JStr ''output''" and image_bytes = "[137, 80, 78, 71]"]
    by (simp add: demo_engine_def good_history_def py_contains_def py_getitem_def subscript_def
          py_in_def dict_get_def image_entry_def)
  have 4: "fetch_result demo_engine ''a cat'' 1024 768 20 (7 / 2) 5 (JList [JStr ''job-1''])
             = Inl TypeError"
    using fetch_result_outcomes[where eng = demo_engine and p = "''a cat''" and w = 1024
            and h = 768 and st = 20 and gd = "7 / 2" and sd = 5
            and prompt_id = "JList [JStr ''job-1'']" and hist = good_history and e = TypeError]
    by (simp add: demo_engine_def good_history_def py_contains_def)
  have 5: "fetch_result null_output_engine ''a cat'' 1024 768 20 (7 / 2) 5 (JStr ''job-1'')
             = Inl TypeError"
    using fetch_result_outcomes[where eng = null_output_engine and p = "''a cat''" and w = 1024
            and h = 768 and st = 20 and gd = "7 / 2" and sd = 5 and prompt_id = "JStr ''job-1''"
            and hist = "JObj [(''job-1'', JObj
              [(''outputs'', JObj
                 [(''vae_decode'', JNull),
                  (''save_image'', JObj [(''images'', JList [image_entry])])])])]"
            and entry = "JObj [(''outputs'', JObj
                 [(''vae_decode'', JNull),
                  (''save_image'', JObj [(''images'', JList [image_entry])])])]"
            and skipped = "[]" and node_id = "''vae_decode''" and out = JNull
            and others = "[(''save_image'', JObj [(''images'', JList [image_entry])])]"
            and e = TypeError]
    by (simp add: null_output_engine_def py_contains_def py_getitem_def subscript_def py_in_def)
  show ?thesis using 1 2 3 4 5 by blast
qed

text \<open>
  C5 as stated fails: when the history has the job and its first node output exposing
  \<^verbatim>\<open>"images"\<close> holds an empty list, \<^verbatim>\<open>output["images"][0]\<close> raises IndexError; the call
  neither fails with one of the two result-missing errors nor returns an entry.
\<close>

theorem empty_image_list_counterexample:
  "history empty_images_engine (JStr ''job-1'') =
     Inr (JObj [(''job-1'', JObj
            [(''outputs'', JObj [(''save_image'', JObj [(''images'', JList [])])])])])
   \<and> fetch_result empty_images_engine ''a cat'' 1024 768 20 (7 / 2) 5 (JStr ''job-1'')
       = Inl IndexError
   \<and> fst (generate_image empty_images_engine ''a cat'' 1024 768 20 (7 / 2) (Some 5) True
            demo_client) = Raises IndexError"
proof -
  have 1: "history empty_images_engine (JStr ''job-1'') =
     Inr (JObj [(''job-1'', JObj
            [(''outputs'', JObj [(''save_image'', JObj [(''images'', JList [])])])])])"
    by (simp add: empty_images_engine_def)
  have 2: "fetch_result empty_images_engine ''a cat'' 1024 768 20 (7 / 2) 5 (JStr ''job-1'')
       = Inl IndexError"
    by (simp add: fetch_result_def get_history_def 1 py_contains_def py_getitem_def
          subscript_def py_in_def subscript0_def)
  have h: "capability_set empty_images_engine demo_client = Inr (True, True)"
    unfolding demo_client_def
    by (rule capability_set_full_catalogue) (simp add: empty_images_engine_def demo_engine_def)
  have a: "snd (last (cascade_attempts empty_images_engine ''a cat'' 1024 768 20 (7 / 2) (Some 5)
                         demo_client)) = Inr (JStr ''job-1'')"
    unfolding cascade_attempts_def h
    by (simp add: cascade_order_def empty_images_engine_def demo_engine_def prompt_result_def
          py_in_def subscript_def demo_client_def new_client_fields)
  have t: "fst (track_progress empty_images_engine True
             (committed empty_images_engine ''a cat'' 1024 768 20 (7 / 2) (Some 5) demo_client))
           = Returns ()"
    by (simp add: track_progress_def empty_images_engine_def demo_engine_def on_message_def
          progress_event_def executing_event_def subscript_def)
  have d: "fst (default_seed (Some 5) (rng demo_client)) = 5"
    by (simp add: default_seed_def)
  have 3: "fst (generate_image empty_images_engine ''a cat'' 1024 768 20 (7 / 2) (Some 5) True
            demo_client) = Raises IndexError"
  proof -
    obtain o5 s5 where tp: "track_progress empty_images_engine True
             (committed empty_images_engine ''a cat'' 1024 768 20 (7 / 2) (Some 5) demo_client)
           = (o5, s5)"
      by (cases "track_progress empty_images_engine True
             (committed empty_images_engine ''a cat'' 1024 768 20 (7 / 2) (Some 5) demo_client)")
    with t have "o5 = Returns ()" by simp
    with tp show ?thesis by (simp add: generate_image_answered[OF h] a d 2)
  qed
  show ?thesis using 1 2 3 by blast
qed

section \<open>The cached catalogue\<close>

lemma cached_lookups:
  "available_nodes s \<noteq> JNull \<Longrightarrow>
     repeated_lookups eng n s = (replicate n (available_nodes s), s)"
  by (induction n) (simp_all add: get_available_nodes_def)

lemma failed_lookup:
  "available_nodes s = JNull \<Longrightarrow> object_info eng (fetches s) = Inl msg \<Longrightarrow>
     get_available_nodes eng s = (JObj [], s\<lparr>fetches := Suc (fetches s)\<rparr>)"
  by (simp add: get_available_nodes_def)

lemma answered_lookup:
  "available_nodes s = JNull \<Longrightarrow> object_info eng (fetches s) = Inr body \<Longrightarrow>
     get_available_nodes eng s =
       (body, s\<lparr>available_nodes := body, fetches := Suc (fetches s)\<rparr>)"
  by (simp add: get_available_nodes_def)

lemma uncached_lookup:
  assumes "available_nodes s = JNull"
    and "isl (object_info eng (fetches s)) \<or> object_info eng (fetches s) = Inr JNull"
  shows "\<exists>s1. get_available_nodes eng s =
            ((case object_info eng (fetches s) of Inl msg \<Rightarrow> JObj [] | Inr b \<Rightarrow> b), s1)
          \<and> available_nodes s1 = JNull \<and> fetches s1 = Suc (fetches s)"
proof (cases "object_info eng (fetches s)")
  case (Inl msg)
  then show ?thesis using assms(1) by (simp add: failed_lookup)
next
  case (Inr b)
  with assms(2) have "b = JNull" by simp
  with Inr show ?thesis using assms(1) by (simp add: answered_lookup)
qed

lemma lookups_until_success:
  assumes "available_nodes s = JNull"
    and "\<forall>i<k. isl (object_info eng (fetches s + i)) \<or> object_info eng (fetches s + i) = Inr JNull"
    and "object_info eng (fetches s + k) = Inr body"
    and "body \<noteq> JNull"
  shows "fst (repeated_lookups eng n s) =
           map (\<lambda>i. case object_info eng (fetches s + i) of Inl msg \<Rightarrow> JObj [] | Inr b \<Rightarrow> b)
             [0..<min n k] @ replicate (n - k) body
       \<and> fetches (snd (repeated_lookups eng n s)) = fetches s + min n (Suc k)
       \<and> available_nodes (snd (repeated_lookups eng n s)) = (if k < n then body else JNull)"
  using assms
proof (induction k arbitrary: s n)
  case 0
  show ?case
  proof (cases n)
    case 0
    then show ?thesis using "0.prems" by simp
  next
    case (Suc n')
    let ?s1 = "s\<lparr>available_nodes := body, fetches := Suc (fetches s)\<rparr>"
    have g: "get_available_nodes eng s = (body, ?s1)"
      using "0.prems" by (simp add: answered_lookup)
    have c: "repeated_lookups eng n' ?s1 = (replicate n' body, ?s1)"
      using cached_lookups[of ?s1 eng n'] "0.prems"(4) by simp
    show ?thesis by (simp add: Suc g c)
  qed
next
  case (Suc k)
  show ?case
  proof (cases n)
    case 0
    then show ?thesis using Suc.prems by simp
  next
    case (Suc n')
    from Suc.prems(2)
    have "isl (object_info eng (fetches s + 0)) \<or> object_info eng (fetches s + 0) = Inr JNull"
      by blast
    then have first: "isl (object_info eng (fetches s)) \<or> object_info eng (fetches s) = Inr JNull"
      by simp
    from uncached_lookup[OF Suc.prems(1) first] obtain s1 where
      g: "get_available_nodes eng s =
            ((case object_info eng (fetches s) of Inl msg \<Rightarrow> JObj [] | Inr b \<Rightarrow> b), s1)"
      and p1: "available_nodes s1 = JNull" and f1: "fetches s1 = Suc (fetches s)"
      by blast
    have p2: "\<forall>i<k. isl (object_info eng (fetches s1 + i))
                \<or> object_info eng (fetches s1 + i) = Inr JNull"
    proof (intro allI impI)
      fix i assume "i < k"
      then have "Suc i < Suc k" by simp
      with Suc.prems(2)
      have "isl (object_info eng (fetches s + Suc i))
              \<or> object_info eng (fetches s + Suc i) = Inr JNull"
        by blast
      then show "isl (object_info eng (fetches s1 + i))
              \<or> object_info eng (fetches s1 + i) = Inr JNull"
        by (simp add: f1)
    qed
    have p3: "object_info eng (fetches s1 + k) = Inr body" using Suc.prems(3) by (simp add: f1)
    obtain rs s2 where r: "repeated_lookups eng n' s1 = (rs, s2)"
      by (cases "repeated_lookups eng n' s1")
    from Suc.IH[OF p1 p2 p3 Suc.prems(4), of n'] r
    have ih: "rs = map (\<lambda>i. case object_info eng (fetches s1 + i) of
                               Inl msg \<Rightarrow> JObj [] | Inr b \<Rightarrow> b)
                     [0..<min n' k] @ replicate (n' - k) body"
      "fetches s2 = fetches s1 + min n' (Suc k)"
      "available_nodes s2 = (if k < n' then body else JNull)"
      by simp_all
    show ?thesis
      by (simp add: \<open>n = Suc n'\<close> g r ih f1 upt_conv_Cons map_Suc_upt[symmetric] del: upt_Suc)
  qed
qed

lemma has_node_failed:
  "available_nodes s = JNull \<Longrightarrow> isl (object_info eng (fetches s)) \<Longrightarrow>
     has_node eng node_type s = (Inr False, s\<lparr>fetches := Suc (fetches s)\<rparr>)"
  by (cases "object_info eng (fetches s)")
     (simp_all add: has_node_def get_available_nodes_def py_in_def)

lemma has_node_null:
  "available_nodes s = JNull \<Longrightarrow> object_info eng (fetches s) = Inr JNull \<Longrightarrow>
     has_node eng node_type s =
       (Inl TypeError, s\<lparr>available_nodes := JNull, fetches := Suc (fetches s)\<rparr>)"
  by (simp add: has_node_def get_available_nodes_def py_in_def)

text \<open>
  C8, as the code has it. Take a client without a cached catalogue and an engine whose
  next \<open>k\<close> catalogue requests fail or are answered with JSON null and whose request after
  them is answered with a \<open>body\<close> other than null. Of \<open>n\<close> successive calls of
  \<^verbatim>\<open>get_available_nodes\<close>, each of the first \<open>k\<close> issues a request, returns the empty
  catalogue after a failure and \<^verbatim>\<open>None\<close> after a null answer, without raising, and caches
  nothing; the next call issues the one request that is cached, with \<open>body\<close>; every later
  call returns \<open>body\<close> and issues no request. After a failed request \<^verbatim>\<open>has_node\<close> answers
  false; after a null answer its membership test raises a TypeError. On a client with a
  cached catalogue every call returns it and leaves the state untouched.
\<close>

theorem catalogue_cached_after_success:
  assumes "available_nodes s = JNull"
    and "\<forall>i<k. isl (object_info eng (fetches s + i)) \<or> object_info eng (fetches s + i) = Inr JNull"
    and "object_info eng (fetches s + k) = Inr body"
    and "body \<noteq> JNull"
  shows "fst (repeated_lookups eng n s) =
           map (\<lambda>i. case object_info eng (fetches s + i) of Inl msg \<Rightarrow> JObj [] | Inr b \<Rightarrow> b)
             [0..<min n k] @ replicate (n - k) body
       \<and> fetches (snd (repeated_lookups eng n s)) = fetches s + min n (Suc k)
       \<and> available_nodes (snd (repeated_lookups eng n s)) = (if k < n then body else JNull)
       \<and> (isl (object_info eng (fetches s)) \<longrightarrow>
            get_available_nodes eng s = (JObj [], s\<lparr>fetches := Suc (fetches s)\<rparr>)
            \<and> has_node eng node_type s = (Inr False, s\<lparr>fetches := Suc (fetches s)\<rparr>))
       \<and> (object_info eng (fetches s) = Inr JNull \<longrightarrow>
            fst (get_available_nodes eng s) = JNull
            \<and> has_node eng node_type s =
                (Inl TypeError, s\<lparr>available_nodes := JNull, fetches := Suc (fetches s)\<rparr>))
       \<and> (available_nodes s' \<noteq> JNull \<longrightarrow>
            repeated_lookups eng n s' = (replicate n (available_nodes s'), s'))"
proof -
  have 4: "isl (object_info eng (fetches s)) \<longrightarrow>
            get_available_nodes eng s = (JObj [], s\<lparr>fetches := Suc (fetches s)\<rparr>)
            \<and> has_node eng node_type s = (Inr False, s\<lparr>fetches := Suc (fetches s)\<rparr>)"
    using assms(1)
    by (cases "object_info eng (fetches s)") (simp_all add: failed_lookup has_node_failed)
  have 5: "object_info eng (fetches s) = Inr JNull \<longrightarrow>
            fst (get_available_nodes eng s) = JNull
            \<and> has_node eng node_type s =
                (Inl TypeError, s\<lparr>available_nodes := JNull, fetches := Suc (fetches s)\<rparr>)"
    using assms(1) by (simp add: answered_lookup has_node_null)
  have 6: "available_nodes s' \<noteq> JNull \<longrightarrow>
            repeated_lookups eng n s' = (replicate n (available_nodes s'), s')"
    by (simp add: cached_lookups)
  show ?thesis
    using lookups_until_success[OF assms, of n] 4 5 6 by blast
qed

theorem catalogue_cached_after_success_witness:
  "fst (repeated_lookups null_engine 4 demo_client) =
     [JNull, full_catalogue, full_catalogue, full_catalogue]
   \<and> fetches (snd (repeated_lookups null_engine 4 demo_client)) = 2
   \<and> available_nodes (snd (repeated_lookups null_engine 4 demo_client)) = full_catalogue
   \<and> has_node null_engine ''UnetLoaderGGUF'' demo_client =
       (Inl TypeError, demo_client\<lparr>available_nodes := JNull, fetches := Suc (fetches demo_client)\<rparr>)
   \<and> fst (repeated_lookups flaky_engine 4 demo_client) =
       [JObj [], full_catalogue, full_catalogue, full_catalogue]
   \<and> has_node flaky_engine ''UnetLoaderGGUF'' demo_client =
       (Inr False, demo_client\<lparr>fetches := Suc (fetches demo_client)\<rparr>)
   \<and> repeated_lookups flaky_engine 4 (demo_client\<lparr>available_nodes := full_catalogue\<rparr>) =
       (replicate 4 full_catalogue, demo_client\<lparr>available_nodes := full_catalogue\<rparr>)"
proof -
  have a1: "available_nodes demo_client = JNull"
    by (simp add: demo_client_def new_client_fields)
  have f0: "fetches demo_client = 0"
    by (simp add: demo_client_def new_client_fields)
  have b: "full_catalogue \<noteq> JNull"
    by (simp add: full_catalogue_def)
  have n2: "\<forall>i<1. isl (object_info null_engine (fetches demo_client + i))
              \<or> object_info null_engine (fetches demo_client + i) = Inr JNull"
    by (simp add: null_engine_def f0)
  have n3: "object_info null_engine (fetches demo_client + 1) = Inr full_catalogue"
    by (simp add: null_engine_def f0)
  have f2: "\<forall>i<1. isl (object_info flaky_engine (fetches demo_client + i))
              \<or> object_info flaky_engine (fetches demo_client + i) = Inr JNull"
    by (simp add: flaky_engine_def f0)
  have f3: "object_info flaky_engine (fetches demo_client + 1) = Inr full_catalogue"
    by (simp add: flaky_engine_def f0)
  have n0: "object_info null_engine (fetches demo_client) = Inr JNull"
    by (simp add: null_engine_def f0)
  have fl0: "isl (object_info flaky_engine (fetches demo_client))"
    by (simp add: flaky_engine_def f0)
  have fl00: "object_info flaky_engine 0 = Inl ''connection refused''"
    by (simp add: flaky_engine_def)
  have nn0: "object_info null_engine 0 = Inr JNull"
    by (simp add: null_engine_def)
  note N = catalogue_cached_after_success[OF a1 n2 n3 b, where n = 4
      and node_type = "''UnetLoaderGGUF''"
      and s' = "demo_client\<lparr>available_nodes := full_catalogue\<rparr>"]
  note F = catalogue_cached_after_success[OF a1 f2 f3 b, where n = 4
      and node_type = "''UnetLoaderGGUF''"
      and s' = "demo_client\<lparr>available_nodes := full_catalogue\<rparr>"]
  have r1: "map (\<lambda>i. case object_info null_engine (fetches demo_client + i) of
                       Inl msg \<Rightarrow> JObj [] | Inr b \<Rightarrow> b) [0..<min 4 1]
              @ replicate (4 - 1) full_catalogue =
            [JNull, full_catalogue, full_catalogue, full_catalogue]"
    by (simp add: f0 nn0 numeral_3_eq_3)
  have 1: "fst (repeated_lookups null_engine 4 demo_client) =
     [JNull, full_catalogue, full_catalogue, full_catalogue]"
    by (rule trans[OF N[THEN conjunct1] r1])
  have 2: "fetches (snd (repeated_lookups null_engine 4 demo_client)) = 2"
    using N by (simp add: f0)
  have 3: "available_nodes (snd (repeated_lookups null_engine 4 demo_client)) = full_catalogue"
    using N by simp
  have 4: "has_node null_engine ''UnetLoaderGGUF'' demo_client =
       (Inl TypeError, demo_client\<lparr>available_nodes := JNull, fetches := Suc (fetches demo_client)\<rparr>)"
    using N n0 by blast
  have r5: "map (\<lambda>i. case object_info flaky_engine (fetches demo_client + i) of
                       Inl msg \<Rightarrow> JObj [] | Inr b \<Rightarrow> b) [0..<min 4 1]
              @ replicate (4 - 1) full_catalogue =
            [JObj [], full_catalogue, full_catalogue, full_catalogue]"
    by (simp add: f0 fl00 numeral_3_eq_3)
  have 5: "fst (repeated_lookups flaky_engine 4 demo_client) =
       [JObj [], full_catalogue, full_catalogue, full_catalogue]"
    by (rule trans[OF F[THEN conjunct1] r5])
  have 6: "has_node flaky_engine ''UnetLoaderGGUF'' demo_client =
       (Inr False, demo_client\<lparr>fetches := Suc (fetches demo_client)\<rparr>)"
    using F fl0 by blast
  have 7: "repeated_lookups flaky_engine 4 (demo_client\<lparr>available_nodes := full_catalogue\<rparr>) =
       (replicate 4 full_catalogue, demo_client\<lparr>available_nodes := full_catalogue\<rparr>)"
    using F b by simp
  show ?thesis using 1 2 3 4 5 6 7 by blast
qed

text \<open>
  C8 as stated fails: when the first request fails and the second succeeds, two successive
  calls on a new client fetch from the engine twice, and the second call does not return
  what the first returned.
\<close>

theorem catalogue_fetched_twice_counterexample:
  "fst (repeated_lookups flaky_engine 2 demo_client) = [JObj [], full_catalogue]
   \<and> fetches demo_client = 0
   \<and> fetches (snd (repeated_lookups flaky_engine 2 demo_client)) = 2"
  by (simp add: numeral_2_eq_2 get_available_nodes_def flaky_engine_def demo_client_def
        new_client_def full_catalogue_def)

end
